theory Spec2Isabelle
  imports Main "HOL-Library.AList"
begin

section \<open>Python values shared by the model\<close>

text \<open>
  An exception is its class and its message. The classes listed are the ones the
  modelled code raises or catches; \<open>OtherError c\<close> stands for any class \<open>c\<close> that is
  not one of them and not derived from one of them, so that an
  \<^verbatim>\<open>except AttributeError\<close> clause catches exactly the exceptions whose class is
  \<open>AttributeError\<close>.
\<close>

datatype exc_class =
  AttributeError | IndexError | KeyError | RuntimeError | ValueError | OtherError string

datatype exn = Exception (exc: exc_class) (msg: string)

text \<open>
  A numpy array as far as the code looks at it: one-dimensional, or two-dimensional
  with its number of columns (\<^verbatim>\<open>shape[1]\<close>) and its rows. The elements are
  floating-point numbers in the program; the code never computes with them, so their
  type stays a parameter.
\<close>

datatype 'a ndarray = Array1 "'a list" | Array2 nat "'a list list"

text \<open>Values of keyword arguments, hyperparameters and column labels.\<close>

datatype 'a pyval = PyNone | PyInt int | PyStr string | PyFloat 'a

section \<open>\<^verbatim>\<open>ComponentBase\<close> (pipelines/components/component\_base.py)\<close>

text \<open>
  The object a component wraps belongs to the machine-learning library. Of it the
  component only uses the attribute \<^verbatim>\<open>fit\<close>: \<open>obj_fit\<close> is \<open>None\<close> when the
  object has no such attribute, and otherwise the method, which takes the object's
  state and the data and either raises or returns a value together with the state of
  the (mutated) object.
\<close>

record ('x, 'y, 's, 'r) wrapped_obj =
  obj_state :: 's
  obj_fit :: "('s \<Rightarrow> 'x \<Rightarrow> 'y \<Rightarrow> exn + 'r \<times> 's) option"

record ('x, 'y, 'a, 's, 'r) ComponentBase =
  name :: string
  component_type :: string
  random_state :: int
  component_needs_fitting :: bool
  component_obj :: "('x, 'y, 's, 'r) wrapped_obj option"
  parameters :: "string \<rightharpoonup> 'a pyval"

text \<open>
  \<^verbatim>\<open>self._component_obj.fit\<close>: the attribute lookup. It raises
  \<^verbatim>\<open>AttributeError\<close> when \<^verbatim>\<open>_component_obj\<close> is \<^verbatim>\<open>None\<close> (the
  constructor's default) or has no \<^verbatim>\<open>fit\<close>; otherwise it is the bound method.
\<close>

definition getattr_fit ::
  "('x, 'y, 's, 'r) wrapped_obj option \<Rightarrow> exn + ('x \<Rightarrow> 'y \<Rightarrow> exn + 'r \<times> 's)" where
  "getattr_fit obj =
     (case obj of
        None \<Rightarrow> Inl (Exception AttributeError ''NoneType object has no attribute fit'')
      | Some w \<Rightarrow>
          (case obj_fit w of
             None \<Rightarrow> Inl (Exception AttributeError ''object has no attribute fit'')
           | Some m \<Rightarrow> Inr (m (obj_state w))))"

definition misconfigured_component :: exn where
  "misconfigured_component =
     Exception RuntimeError
       ''Component requires a fit method or a component_obj that implements fit''"

text \<open>
  \<^verbatim>\<open>
  def fit(self, X, y):
      try:
          return self._component_obj.fit(X, y)
      except AttributeError:
          raise RuntimeError("Component requires a fit method or a component_obj that implements fit")
  \<close>
  (\<open>component_needs_fitting\<close> is the attribute \<^verbatim>\<open>_needs_fitting\<close>.)
  The \<^verbatim>\<open>try\<close> block holds the attribute lookup and the call, so the handler sees
  an \<^verbatim>\<open>AttributeError\<close> of either. The result is the value the wrapped
  \<^verbatim>\<open>fit\<close> returned, with the component whose wrapped object is in its new state.
\<close>

definition ComponentBase_fit ::
  "('x, 'y, 'a, 's, 'r, 'z) ComponentBase_scheme \<Rightarrow> 'x \<Rightarrow> 'y
     \<Rightarrow> exn + 'r \<times> ('x, 'y, 'a, 's, 'r, 'z) ComponentBase_scheme" where
  "ComponentBase_fit self X y =
     (case (case getattr_fit (component_obj self) of
              Inl e \<Rightarrow> Inl e
            | Inr m \<Rightarrow> m X y) of
        Inl e \<Rightarrow>
          (if exc e = AttributeError then Inl misconfigured_component else Inl e)
      | Inr (r, s') \<Rightarrow>
          Inr (r, self\<lparr>component_obj :=
                        map_option (\<lambda>w. w\<lparr>obj_state := s'\<rparr>) (component_obj self)\<rparr>))"

section \<open>Objectives (objectives/standard\_metrics.py)\<close>

text \<open>
  The scoring functions of \<^verbatim>\<open>sklearn.metrics\<close> that the objectives call, taken as
  parameters: each takes the true labels and the predictions and raises or returns a
  score.
\<close>

record ('y, 'a) metrics =
  f1_score :: "'y \<Rightarrow> 'a ndarray \<Rightarrow> exn + 'a"
  precision_score :: "'y \<Rightarrow> 'a ndarray \<Rightarrow> exn + 'a"
  roc_auc_score :: "'y \<Rightarrow> 'a ndarray \<Rightarrow> exn + 'a"
  log_loss :: "'y \<Rightarrow> 'a ndarray \<Rightarrow> exn + 'a"
  matthews_corrcoef :: "'y \<Rightarrow> 'a ndarray \<Rightarrow> exn + 'a"
  r2_score :: "'y \<Rightarrow> 'a ndarray \<Rightarrow> exn + 'a"

definition F1_score :: "('y, 'a) metrics \<Rightarrow> 'a ndarray \<Rightarrow> 'y \<Rightarrow> exn + 'a" where
  "F1_score M y_predicted y_true = f1_score M y_true y_predicted"

definition Precision_score :: "('y, 'a) metrics \<Rightarrow> 'a ndarray \<Rightarrow> 'y \<Rightarrow> exn + 'a" where
  "Precision_score M y_predicted y_true = precision_score M y_true y_predicted"

definition Recall_score :: "('y, 'a) metrics \<Rightarrow> 'a ndarray \<Rightarrow> 'y \<Rightarrow> exn + 'a" where
  "Recall_score M y_predicted y_true = f1_score M y_true y_predicted"

definition AUC_score :: "('y, 'a) metrics \<Rightarrow> 'a ndarray \<Rightarrow> 'y \<Rightarrow> exn + 'a" where
  "AUC_score M y_predicted y_true = roc_auc_score M y_true y_predicted"

definition LogLoss_score :: "('y, 'a) metrics \<Rightarrow> 'a ndarray \<Rightarrow> 'y \<Rightarrow> exn + 'a" where
  "LogLoss_score M y_predicted y_true = log_loss M y_true y_predicted"

definition MCC_score :: "('y, 'a) metrics \<Rightarrow> 'a ndarray \<Rightarrow> 'y \<Rightarrow> exn + 'a" where
  "MCC_score M y_predicted y_true = matthews_corrcoef M y_true y_predicted"

definition R2_score :: "('y, 'a) metrics \<Rightarrow> 'a ndarray \<Rightarrow> 'y \<Rightarrow> exn + 'a" where
  "R2_score M y_predicted y_true = r2_score M y_true y_predicted"

section \<open>Calls into the library, logged\<close>

text \<open>
  Every method of a pipeline that reaches the library is modelled with the list of the
  calls it made, in order, beside its outcome; the list is kept when the outcome is an
  exception. The string of an event is the \<open>name\<close> of the component or objective
  called.
\<close>

datatype event =
    Transform string
  | Fit_transform string
  | Fit string
  | Predict string
  | Predict_proba string
  | Objective_fit string
  | Objective_predict string
  | Objective_score string

type_synonym 'r traced = "(exn + 'r) \<times> event list"

definition ret :: "'r \<Rightarrow> 'r traced" where
  "ret v = (Inr v, [])"

definition raise :: "exn \<Rightarrow> 'r traced" where
  "raise e = (Inl e, [])"

definition lift :: "exn + 'r \<Rightarrow> 'r traced" where
  "lift r = (r, [])"

definition call :: "event \<Rightarrow> exn + 'r \<Rightarrow> 'r traced" where
  "call ev r = (r, [ev])"

definition tbind :: "'r traced \<Rightarrow> ('r \<Rightarrow> 'q traced) \<Rightarrow> 'q traced" where
  "tbind m f =
     (case fst m of
        Inl e \<Rightarrow> (Inl e, snd m)
      | Inr v \<Rightarrow> (fst (f v), snd m @ snd (f v)))"

text \<open>A list comprehension whose body may raise: it stops at the first exception.\<close>

fun map_raise :: "('b \<Rightarrow> exn + 'c) \<Rightarrow> 'b list \<Rightarrow> exn + 'c list" where
  "map_raise f [] = Inr []"
| "map_raise f (x # xs) =
     (case f x of
        Inl e \<Rightarrow> Inl e
      | Inr v \<Rightarrow> (case map_raise f xs of Inl e \<Rightarrow> Inl e | Inr vs \<Rightarrow> Inr (v # vs)))"

text \<open>
  \<^verbatim>\<open>OrderedDict(pairs)\<close>: the pairs are inserted from left to right; a key that is
  already present keeps its place and takes the new value.
\<close>

definition OrderedDict :: "('k \<times> 'v) list \<Rightarrow> ('k \<times> 'v) list" where
  "OrderedDict kvs = foldl (\<lambda>d (k, v). AList.update k v d) [] kvs"

section \<open>Components, objectives and pipelines (pipelines/pipeline\_base.py)\<close>

text \<open>
  The classes \<^verbatim>\<open>Transformer\<close> and \<^verbatim>\<open>Estimator\<close> extend
  \<^verbatim>\<open>ComponentBase\<close>, and their subclasses may override every method, so a
  component carries its methods: each takes the wrapped object of the component and the
  data. The fitting methods return the wrapped object in its new state;
  \<open>transform\<close>, \<open>predict\<close> and \<open>predict_proba\<close> only read it.
  \<open>is_Estimator c\<close> is \<^verbatim>\<open>isinstance(c, Estimator)\<close>.
\<close>

record ('x, 'y, 'a, 's, 'r) component = "('x, 'y, 'a, 's, 'r) ComponentBase" +
  is_Estimator :: bool
  transform ::
    "('x, 'y, 's, 'r) wrapped_obj option \<Rightarrow> 'x \<Rightarrow> 'y option \<Rightarrow> exn + 'x"
  fit_transform ::
    "('x, 'y, 's, 'r) wrapped_obj option \<Rightarrow> 'x \<Rightarrow> 'y option
       \<Rightarrow> exn + 'x \<times> ('x, 'y, 's, 'r) wrapped_obj option"
  fit ::
    "('x, 'y, 's, 'r) wrapped_obj option \<Rightarrow> 'x \<Rightarrow> 'y
       \<Rightarrow> exn + ('x, 'y, 's, 'r) wrapped_obj option"
  predict :: "('x, 'y, 's, 'r) wrapped_obj option \<Rightarrow> 'x \<Rightarrow> exn + 'a ndarray"
  predict_proba :: "('x, 'y, 's, 'r) wrapped_obj option \<Rightarrow> 'x \<Rightarrow> exn + 'a ndarray"

text \<open>
  An objective: its name, its flags, its state (what \<^verbatim>\<open>fit\<close> tunes) and its
  methods. The last argument of a method is the feature table, passed only when the
  objective \<open>uses_extra_columns\<close>.
\<close>

record ('x, 'y, 'a, 't) objective =
  objective_name :: string
  greater_is_better :: bool
  needs_fitting :: bool
  fit_needs_proba :: bool
  score_needs_proba :: bool
  uses_extra_columns :: bool
  o_state :: 't
  o_fit :: "'t \<Rightarrow> 'a ndarray \<Rightarrow> 'y \<Rightarrow> 'x option \<Rightarrow> exn + 't"
  o_predict :: "'t \<Rightarrow> 'a ndarray \<Rightarrow> 'x option \<Rightarrow> exn + 'a ndarray"
  o_score :: "'t \<Rightarrow> 'a ndarray \<Rightarrow> 'y \<Rightarrow> 'x option \<Rightarrow> exn + 'a"

text \<open>
  Components are objects: the same instance may stand at several places of a component
  list, and fitting it at one place shows at every other. So the pipeline refers to its
  components by address, and \<open>objects\<close> gives the component that lives at each
  address; fitting a component writes its new state there.
\<close>

type_synonym ('x, 'y, 'a, 's, 'r) heap = "nat \<Rightarrow> ('x, 'y, 'a, 's, 'r) component"

text \<open>
  The pipeline holds the attributes its methods read. \<^verbatim>\<open>self.objective\<close> is
  whatever \<^verbatim>\<open>get_objective\<close> returned, \<^verbatim>\<open>None\<close> included
  (\<^verbatim>\<open>predict\<close> tests it). \<^verbatim>\<open>self.estimator\<close> is the address that is
  also the last of \<^verbatim>\<open>self.component_list\<close>. The attributes
  \<^verbatim>\<open>results\<close>, \<^verbatim>\<open>plot\<close>, \<^verbatim>\<open>logger\<close>, \<^verbatim>\<open>problem_types\<close>
  and \<^verbatim>\<open>model_type\<close> are read by no method modelled here and are left out.
\<close>

record ('x, 'y, 'a, 's, 'r, 't) pipeline =
  objective :: "('x, 'y, 'a, 't) objective option"
  pipeline_random_state :: int
  component_list :: "nat list"
  component_names :: "string list"
  input_feature_names :: "string \<rightharpoonup> 'a pyval list"
  estimator :: nat
  pipeline_name :: string
  n_jobs :: int
  pipeline_parameters :: "string \<rightharpoonup> 'a pyval"
  objects :: "('x, 'y, 'a, 's, 'r) heap"

text \<open>
  What the pipeline uses of pandas and of \<^verbatim>\<open>sklearn.model_selection\<close>:
  the two \<^verbatim>\<open>isinstance\<close> tests, the constructors \<^verbatim>\<open>pd.DataFrame\<close> and
  \<^verbatim>\<open>pd.Series\<close>, which raise on data they cannot hold, the column labels of a
  frame (\<^verbatim>\<open>list(frame)\<close>), and
  \<^verbatim>\<open>train_test_split(X, y, test_size, random_state)\<close>.
\<close>

record ('x, 'y, 'a) pandas =
  isinstance_DataFrame :: "'x \<Rightarrow> bool"
  pd_DataFrame :: "'x \<Rightarrow> exn + 'x"
  columns :: "'x \<Rightarrow> 'a pyval list"
  isinstance_Series :: "'y \<Rightarrow> bool"
  pd_Series :: "'y \<Rightarrow> exn + 'y"
  train_test_split :: "'x \<Rightarrow> 'y \<Rightarrow> 'a \<Rightarrow> int \<Rightarrow> exn + 'x \<times> 'x \<times> 'y \<times> 'y"

definition as_DataFrame :: "('x, 'y, 'a) pandas \<Rightarrow> 'x \<Rightarrow> exn + 'x" where
  "as_DataFrame P X = (if \<not> isinstance_DataFrame P X then pd_DataFrame P X else Inr X)"

definition as_Series :: "('x, 'y, 'a) pandas \<Rightarrow> 'y \<Rightarrow> exn + 'y" where
  "as_Series P y = (if \<not> isinstance_Series P y then pd_Series P y else Inr y)"

subsection \<open>Construction\<close>

text \<open>
  \<^verbatim>\<open>[handle_component(component) for component in component_list]\<close>.
  \<^verbatim>\<open>handle_component\<close> is defined outside the files at hand and is a parameter:
  given the objects there are and an entry of the list, it raises or returns the
  address of a component, an existing one or one it has just created, with the objects
  there are afterwards.
\<close>

fun handle_components ::
  "(('x, 'y, 'a, 's, 'r) heap \<Rightarrow> 'c \<Rightarrow> exn + nat \<times> ('x, 'y, 'a, 's, 'r) heap)
     \<Rightarrow> ('x, 'y, 'a, 's, 'r) heap \<Rightarrow> 'c list
     \<Rightarrow> exn + nat list \<times> ('x, 'y, 'a, 's, 'r) heap" where
  "handle_components handle_component h [] = Inr ([], h)"
| "handle_components handle_component h (c # cs) =
     (case handle_component h c of
        Inl e \<Rightarrow> Inl e
      | Inr (r, h') \<Rightarrow>
          (case handle_components handle_component h' cs of
             Inl e \<Rightarrow> Inl e
           | Inr (rs, h'') \<Rightarrow> Inr (r # rs, h'')))"

text \<open>
  \<^verbatim>\<open>_instantiate_components\<close>. \<open>signature_parameters c\<close> is the list of
  parameter names of \<^verbatim>\<open>inspect.signature(c.__init__)\<close> and
  \<open>class_call c args\<close> is \<^verbatim>\<open>c.__class__(**args)\<close>; both belong to classes
  that are parameters here. The new instance is assigned to the loop variable
  \<^verbatim>\<open>component\<close> and to nothing else, so the loop hands on only the keyword
  dictionary, and the method returns nothing.
\<close>

definition relevant_args ::
  "(string \<rightharpoonup> 'a pyval) \<Rightarrow> string list \<Rightarrow> (string \<rightharpoonup> 'a pyval)" where
  "relevant_args kwargs args = (\<lambda>k. if k \<in> set args then kwargs k else None)"

fun instantiate_loop ::
  "(('x, 'y, 'a, 's, 'r) component \<Rightarrow> string list)
     \<Rightarrow> (('x, 'y, 'a, 's, 'r) component \<Rightarrow> (string \<rightharpoonup> 'a pyval)
           \<Rightarrow> exn + ('x, 'y, 'a, 's, 'r) component)
     \<Rightarrow> ('x, 'y, 'a, 's, 'r, 't) pipeline \<Rightarrow> nat list
     \<Rightarrow> (string \<rightharpoonup> 'a pyval) \<Rightarrow> exn + unit" where
  "instantiate_loop signature_parameters class_call self [] kwargs = Inr ()"
| "instantiate_loop signature_parameters class_call self (r # rest) kwargs =
     (let component = objects self r;
          args = signature_parameters component;
          kwargs = kwargs(''n_jobs'' \<mapsto> PyInt (n_jobs self));
          kwargs = kwargs(''random_state'' \<mapsto> PyInt (pipeline_random_state self))
      in case class_call component (relevant_args kwargs args) of
           Inl e \<Rightarrow> Inl e
         | Inr component' \<Rightarrow>
             instantiate_loop signature_parameters class_call self rest kwargs)"

definition PipelineBase__instantiate_components ::
  "(('x, 'y, 'a, 's, 'r) component \<Rightarrow> string list)
     \<Rightarrow> (('x, 'y, 'a, 's, 'r) component \<Rightarrow> (string \<rightharpoonup> 'a pyval)
           \<Rightarrow> exn + ('x, 'y, 'a, 's, 'r) component)
     \<Rightarrow> ('x, 'y, 'a, 's, 'r, 't) pipeline \<Rightarrow> (string \<rightharpoonup> 'a pyval) \<Rightarrow> exn + unit" where
  "PipelineBase__instantiate_components signature_parameters class_call self kwargs =
     instantiate_loop signature_parameters class_call self (component_list self) kwargs"

text \<open>
  The loop shared by \<^verbatim>\<open>_generate_name\<close> and \<^verbatim>\<open>generate_name\<close>:
  \<^verbatim>\<open>for index, component in enumerate(...)\<close>, appending to the name so far.
\<close>

fun generate_name_loop ::
  "('x, 'y, 'a, 's, 'r) heap \<Rightarrow> nat \<Rightarrow> nat list \<Rightarrow> string \<Rightarrow> string" where
  "generate_name_loop h index [] nm = nm"
| "generate_name_loop h index (r # rest) nm =
     generate_name_loop h (Suc index) rest
       (if index = 0 then nm @ '' w/ '' @ name (h r)
        else nm @ '' + '' @ name (h r))"

definition PipelineBase__generate_name :: "('x, 'y, 'a, 's, 'r, 't) pipeline \<Rightarrow> string" where
  "PipelineBase__generate_name self =
     generate_name_loop (objects self) 0 (butlast (component_list self))
       (name (objects self (estimator self)))"


definition not_an_estimator :: exn where
  "not_an_estimator =
     Exception ValueError
       ''A pipeline must have an Estimator as the last component in component_list.''"

text \<open>
  \<^verbatim>\<open>__init__(self, objective, component_list, n_jobs, random_state, **kwargs)\<close>,
  called when the objects there are are \<open>heap\<close>. \<^verbatim>\<open>get_objective\<close> is defined
  outside the files at hand and is a parameter; it may raise. The attributes are set in
  the order of the source: the name is generated once the estimator is known, the
  parameters are collected after \<^verbatim>\<open>_instantiate_components\<close> has run.
\<close>

definition PipelineBase_init ::
  "('o \<Rightarrow> exn + ('x, 'y, 'a, 't) objective option)
     \<Rightarrow> (('x, 'y, 'a, 's, 'r) heap \<Rightarrow> 'c \<Rightarrow> exn + nat \<times> ('x, 'y, 'a, 's, 'r) heap)
     \<Rightarrow> (('x, 'y, 'a, 's, 'r) component \<Rightarrow> string list)
     \<Rightarrow> (('x, 'y, 'a, 's, 'r) component \<Rightarrow> (string \<rightharpoonup> 'a pyval)
           \<Rightarrow> exn + ('x, 'y, 'a, 's, 'r) component)
     \<Rightarrow> ('x, 'y, 'a, 's, 'r) heap
     \<Rightarrow> 'o \<Rightarrow> 'c list \<Rightarrow> int \<Rightarrow> int \<Rightarrow> (string \<rightharpoonup> 'a pyval)
     \<Rightarrow> exn + ('x, 'y, 'a, 's, 'r, 't) pipeline" where
  "PipelineBase_init get_objective handle_component signature_parameters class_call heap
       objective_arg component_list_arg n_jobs_arg random_state_arg kwargs =
     (case get_objective objective_arg of
        Inl e \<Rightarrow> Inl e
      | Inr ob \<Rightarrow>
     (case handle_components handle_component heap component_list_arg of
        Inl e \<Rightarrow> Inl e
      | Inr (cl, h) \<Rightarrow>
     (case cl of
        [] \<Rightarrow> Inl (Exception IndexError ''list index out of range'')
      | _ # _ \<Rightarrow>
          if \<not> is_Estimator (h (last cl)) then Inl not_an_estimator
          else
            (let self = \<lparr>objective = ob, pipeline_random_state = random_state_arg,
                         component_list = cl, component_names = map (\<lambda>r. name (h r)) cl,
                         input_feature_names = Map.empty, estimator = last cl,
                         pipeline_name = [], n_jobs = n_jobs_arg,
                         pipeline_parameters = Map.empty, objects = h\<rparr>;
                 self = self\<lparr>pipeline_name := PipelineBase__generate_name self\<rparr>
             in (case PipelineBase__instantiate_components signature_parameters class_call
                        self kwargs of
                   Inl e \<Rightarrow> Inl e
                 | Inr _ \<Rightarrow>
                     Inr (self\<lparr>pipeline_parameters :=
                                 foldl (\<lambda>ps r. ps ++ parameters (objects self r))
                                   (pipeline_parameters self) (component_list self)\<rparr>))))))"

subsection \<open>Transforming and fitting\<close>

text \<open>
  \<^verbatim>\<open>
  def _transform(self, X):
      X_t = X
      for component in self.component_list[:-1]:
          X_t = component.transform(X_t)
      return X_t
  \<close>
\<close>

fun transform_loop ::
  "('x, 'y, 'a, 's, 'r) heap \<Rightarrow> nat list \<Rightarrow> 'x \<Rightarrow> 'x traced" where
  "transform_loop h [] X_t = ret X_t"
| "transform_loop h (r # rest) X_t =
     tbind (call (Transform (name (h r)))
              (transform (h r) (component_obj (h r)) X_t None))
       (\<lambda>X_t. transform_loop h rest X_t)"

definition PipelineBase__transform ::
  "('x, 'y, 'a, 's, 'r, 't) pipeline \<Rightarrow> 'x \<Rightarrow> 'x traced" where
  "PipelineBase__transform self X =
     transform_loop (objects self) (butlast (component_list self)) X"

text \<open>
  The loop of \<^verbatim>\<open>_fit\<close>. Its state is \<^verbatim>\<open>X_t\<close>,
  \<^verbatim>\<open>self.input_feature_names\<close> and the objects; each round records the column
  labels of \<^verbatim>\<open>pd.DataFrame(X_t)\<close> under the component's name, then calls the
  component, whose \<^verbatim>\<open>fit_transform\<close> leaves it in a new state.
\<close>

fun fit_loop ::
  "('x, 'y, 'a) pandas \<Rightarrow> ('x, 'y, 'a, 's, 'r) heap \<Rightarrow> nat list \<Rightarrow> 'y
     \<Rightarrow> 'x \<Rightarrow> (string \<rightharpoonup> 'a pyval list)
     \<Rightarrow> ('x \<times> (string \<rightharpoonup> 'a pyval list) \<times> ('x, 'y, 'a, 's, 'r) heap) traced"
  where
  "fit_loop P h [] y_t X_t names = ret (X_t, names, h)"
| "fit_loop P h (r # rest) y_t X_t names =
     (let component = h r
      in tbind (lift (pd_DataFrame P X_t))
           (\<lambda>frame.
              let names = names(name component \<mapsto> columns P frame)
              in tbind
                   (if component_needs_fitting component
                    then tbind (call (Fit_transform (name component))
                                  (fit_transform component (component_obj component) X_t
                                     (Some y_t)))
                           (\<lambda>(X_t, obj). ret (X_t, h(r := component\<lparr>component_obj := obj\<rparr>)))
                    else tbind (call (Transform (name component))
                                  (transform component (component_obj component) X_t
                                     (Some y_t)))
                           (\<lambda>X_t. ret (X_t, h)))
                   (\<lambda>(X_t, h). fit_loop P h rest y_t X_t names)))"

definition PipelineBase__fit ::
  "('x, 'y, 'a) pandas \<Rightarrow> ('x, 'y, 'a, 's, 'r, 't) pipeline \<Rightarrow> 'x \<Rightarrow> 'y
     \<Rightarrow> ('x, 'y, 'a, 's, 'r, 't) pipeline traced" where
  "PipelineBase__fit P self X y =
     tbind (fit_loop P (objects self) (butlast (component_list self)) y X
              (input_feature_names self))
       (\<lambda>(X_t, names, h).
          let est = h (estimator self)
          in tbind (lift (pd_DataFrame P X_t))
               (\<lambda>frame.
                  let names = names(name est \<mapsto> columns P frame)
                  in tbind (call (Fit (name est)) (fit est (component_obj est) X_t y))
                       (\<lambda>obj.
                          ret (self\<lparr>input_feature_names := names,
                                    objects :=
                                      h(estimator self := est\<lparr>component_obj := obj\<rparr>)\<rparr>))))"

subsection \<open>Predicting\<close>

text \<open>
  \<^verbatim>\<open>proba.shape[1]\<close> and \<^verbatim>\<open>proba[:, 1]\<close> on a numpy array. A
  one-dimensional array has no second axis; index 1 along an axis of fewer than two
  columns is out of bounds.
\<close>

definition shape_1 :: "'a ndarray \<Rightarrow> exn + nat" where
  "shape_1 a =
     (case a of
        Array1 xs \<Rightarrow> Inl (Exception IndexError ''tuple index out of range'')
      | Array2 n rows \<Rightarrow> Inr n)"

definition column_1 :: "'a ndarray \<Rightarrow> exn + 'a ndarray" where
  "column_1 a =
     (case a of
        Array1 xs \<Rightarrow>
          Inl (Exception IndexError
                 ''too many indices for array: array is 1-dimensional, but 2 were indexed'')
      | Array2 n rows \<Rightarrow>
          if 1 < n then Inr (Array1 (map (\<lambda>row. row ! 1) rows))
          else Inl (Exception IndexError
                      (''index 1 is out of bounds for axis 1 with size ''
                       @ (if n = 0 then ''0'' else ''1''))))"

definition PipelineBase_predict_proba ::
  "('x, 'y, 'a) pandas \<Rightarrow> ('x, 'y, 'a, 's, 'r, 't) pipeline \<Rightarrow> 'x \<Rightarrow> 'a ndarray traced"
  where
  "PipelineBase_predict_proba P self X =
     tbind (lift (as_DataFrame P X))
       (\<lambda>X. tbind (PipelineBase__transform self X)
          (\<lambda>X. tbind (call (Predict_proba (name (objects self (estimator self))))
                         (predict_proba (objects self (estimator self))
                            (component_obj (objects self (estimator self))) X))
                  (\<lambda>proba. tbind (lift (shape_1 proba))
                              (\<lambda>n. if n \<le> 2 then lift (column_1 proba) else ret proba))))"

text \<open>
  \<^verbatim>\<open>predict\<close>. The transform chain runs first, whatever the objective; when the
  objective is there and needs fitting, the predictions (probabilities through
  \<^verbatim>\<open>predict_proba\<close>, or labels after a second run of the chain) go through
  \<^verbatim>\<open>objective.predict\<close>.
\<close>

definition PipelineBase_predict ::
  "('x, 'y, 'a) pandas \<Rightarrow> ('x, 'y, 'a, 's, 'r, 't) pipeline \<Rightarrow> 'x \<Rightarrow> 'a ndarray traced"
  where
  "PipelineBase_predict P self X =
     tbind (lift (as_DataFrame P X))
       (\<lambda>X. tbind (PipelineBase__transform self X)
          (\<lambda>X_t.
             case objective self of
               None \<Rightarrow>
                 call (Predict (name (objects self (estimator self))))
                   (predict (objects self (estimator self))
                      (component_obj (objects self (estimator self))) X_t)
             | Some ob \<Rightarrow>
                 if needs_fitting ob then
                   tbind
                     (if fit_needs_proba ob then PipelineBase_predict_proba P self X
                      else tbind (PipelineBase__transform self X)
                             (\<lambda>X_t. call (Predict (name (objects self (estimator self))))
                                      (predict (objects self (estimator self))
                                         (component_obj (objects self (estimator self))) X_t)))
                     (\<lambda>y_predicted.
                        if uses_extra_columns ob then
                          call (Objective_predict (objective_name ob))
                            (o_predict ob (o_state ob) y_predicted (Some X))
                        else
                          call (Objective_predict (objective_name ob))
                            (o_predict ob (o_state ob) y_predicted None))
                 else
                   call (Predict (name (objects self (estimator self))))
                     (predict (objects self (estimator self))
                        (component_obj (objects self (estimator self))) X_t)))"

subsection \<open>Fitting the pipeline\<close>

text \<open>
  An attribute read on \<^verbatim>\<open>None\<close> raises \<^verbatim>\<open>AttributeError\<close>.
\<close>

definition none_attribute :: exn where
  "none_attribute = Exception AttributeError ''NoneType object has no attribute''"

text \<open>
  \<^verbatim>\<open>fit(self, X, y, objective_fit_size=.2)\<close>. The flag
  \<^verbatim>\<open>objective.needs_fitting\<close> is read before and after \<^verbatim>\<open>_fit\<close> and is
  the same both times, so the model branches on it once. Fitting the objective puts the
  objective in its new state.
\<close>

definition PipelineBase_fit ::
  "('x, 'y, 'a) pandas \<Rightarrow> ('x, 'y, 'a, 's, 'r, 't) pipeline \<Rightarrow> 'x \<Rightarrow> 'y \<Rightarrow> 'a
     \<Rightarrow> ('x, 'y, 'a, 's, 'r, 't) pipeline traced" where
  "PipelineBase_fit P self X y objective_fit_size =
     tbind (lift (as_DataFrame P X))
       (\<lambda>X. tbind (lift (as_Series P y))
          (\<lambda>y.
             case objective self of
               None \<Rightarrow> raise none_attribute
             | Some ob \<Rightarrow>
                 if needs_fitting ob then
                   tbind (lift (train_test_split P X y objective_fit_size
                                  (pipeline_random_state self)))
                     (\<lambda>(X, X_objective, y, y_objective).
                        tbind (PipelineBase__fit P self X y)
                          (\<lambda>self.
                             tbind (if fit_needs_proba ob
                                    then PipelineBase_predict_proba P self X_objective
                                    else PipelineBase_predict P self X_objective)
                               (\<lambda>y_predicted.
                                  tbind (call (Objective_fit (objective_name ob))
                                           (o_fit ob (o_state ob) y_predicted y_objective
                                              (if uses_extra_columns ob then Some X_objective
                                               else None)))
                                    (\<lambda>st. ret (self\<lparr>objective :=
                                                       Some (ob\<lparr>o_state := st\<rparr>)\<rparr>)))))
                 else PipelineBase__fit P self X y))"

subsection \<open>Scoring\<close>

text \<open>
  The loop of \<^verbatim>\<open>score\<close> over \<^verbatim>\<open>[self.objective] + other_objectives\<close>. Its
  state is the pair of caches \<^verbatim>\<open>y_predicted\<close> and \<^verbatim>\<open>y_predicted_proba\<close>
  (\<open>None\<close> until first needed); it returns the list \<^verbatim>\<open>scores\<close>.
\<close>

fun score_loop ::
  "('x, 'y, 'a) pandas \<Rightarrow> ('x, 'y, 'a, 's, 'r, 't) pipeline \<Rightarrow> 'x \<Rightarrow> 'y
     \<Rightarrow> ('x, 'y, 'a, 't) objective option list
     \<Rightarrow> 'a ndarray option \<Rightarrow> 'a ndarray option \<Rightarrow> 'a list traced" where
  "score_loop P self X y [] y_predicted y_predicted_proba = ret []"
| "score_loop P self X y (None # rest) y_predicted y_predicted_proba = raise none_attribute"
| "score_loop P self X y (Some ob # rest) y_predicted y_predicted_proba =
     tbind
       (if score_needs_proba ob then
          tbind (case y_predicted_proba of
                   None \<Rightarrow> PipelineBase_predict_proba P self X
                 | Some cached \<Rightarrow> ret cached)
            (\<lambda>y_predicted_proba. ret (y_predicted_proba, y_predicted, Some y_predicted_proba))
        else
          tbind (case y_predicted of
                   None \<Rightarrow> PipelineBase_predict P self X
                 | Some cached \<Rightarrow> ret cached)
            (\<lambda>y_predicted. ret (y_predicted, Some y_predicted, y_predicted_proba)))
       (\<lambda>(y_predictions, y_predicted, y_predicted_proba).
          tbind (call (Objective_score (objective_name ob))
                   (o_score ob (o_state ob) y_predictions y
                      (if uses_extra_columns ob then Some X else None)))
            (\<lambda>s. tbind (score_loop P self X y rest y_predicted y_predicted_proba)
                    (\<lambda>scores. ret (s # scores))))"

text \<open>
  \<^verbatim>\<open>score(self, X, y, other_objectives=None)\<close>.
  \<^verbatim>\<open>other_objectives or []\<close> turns \<^verbatim>\<open>None\<close> into the empty list. The names
  for the dictionary are read off the objectives, which raises on \<^verbatim>\<open>None\<close>.
\<close>

definition PipelineBase_score ::
  "('o \<Rightarrow> exn + ('x, 'y, 'a, 't) objective option) \<Rightarrow> ('x, 'y, 'a) pandas
     \<Rightarrow> ('x, 'y, 'a, 's, 'r, 't) pipeline \<Rightarrow> 'x \<Rightarrow> 'y \<Rightarrow> 'o list option
     \<Rightarrow> ('a \<times> (string \<times> 'a) list) traced" where
  "PipelineBase_score get_objective P self X y other_objectives =
     tbind (lift (as_DataFrame P X))
       (\<lambda>X. tbind (lift (as_Series P y))
          (\<lambda>y.
             let other_objectives = (case other_objectives of None \<Rightarrow> [] | Some os \<Rightarrow> os)
             in tbind (lift (map_raise get_objective other_objectives))
                  (\<lambda>other_objectives.
                     tbind (score_loop P self X y (objective self # other_objectives)
                              None None)
                       (\<lambda>scores.
                          case scores of
                            [] \<Rightarrow> raise (Exception IndexError ''list index out of range'')
                          | s # other \<Rightarrow>
                              if other_objectives = [] then ret (s, [])
                              else
                                tbind (lift (map_raise
                                               (\<lambda>n. case n of
                                                       None \<Rightarrow> Inl none_attribute
                                                     | Some ob \<Rightarrow> Inr (objective_name ob))
                                               other_objectives))
                                  (\<lambda>names. ret (s, OrderedDict (zip names other)))))))"

section \<open>What the claims are measured against\<close>


text \<open>
  Threading data through the components, without the bookkeeping of \<^verbatim>\<open>_fit\<close>:
  \<open>apply_component\<close> calls the component at an address, with \<open>fit_transform\<close>
  when it needs fitting, which leaves the component in a new state, and with
  \<open>transform\<close> otherwise; \<open>thread\<close> goes through a list of addresses and returns,
  for each, the component's name with the table it was given, then the objects as the
  fitting left them and the table that comes out at the end.
\<close>

definition apply_component ::
  "('x, 'y, 'a, 's, 'r) heap \<Rightarrow> nat \<Rightarrow> 'x \<Rightarrow> 'y
     \<Rightarrow> exn + 'x \<times> ('x, 'y, 'a, 's, 'r) heap"
  where
  "apply_component h r X y =
     (if component_needs_fitting (h r) then
        (case fit_transform (h r) (component_obj (h r)) X (Some y) of
           Inl e \<Rightarrow> Inl e
         | Inr (X', obj) \<Rightarrow> Inr (X', h(r := (h r)\<lparr>component_obj := obj\<rparr>)))
      else
        (case transform (h r) (component_obj (h r)) X (Some y) of
           Inl e \<Rightarrow> Inl e
         | Inr X' \<Rightarrow> Inr (X', h)))"

fun thread ::
  "('x, 'y, 'a, 's, 'r) heap \<Rightarrow> nat list \<Rightarrow> 'x \<Rightarrow> 'y
     \<Rightarrow> exn + (string \<times> 'x) list \<times> ('x, 'y, 'a, 's, 'r) heap \<times> 'x" where
  "thread h [] X y = Inr ([], h, X)"
| "thread h (r # rs) X y =
     (case apply_component h r X y of
        Inl e \<Rightarrow> Inl e
      | Inr (X', h') \<Rightarrow>
          (case thread h' rs X' y of
             Inl e \<Rightarrow> Inl e
           | Inr (seen, h'', X_out) \<Rightarrow> Inr ((name (h r), X) # seen, h'', X_out)))"

text \<open>The library call each non-final component receives during \<^verbatim>\<open>_fit\<close>.\<close>

definition fit_event :: "('x, 'y, 'a, 's, 'r) component \<Rightarrow> event" where
  "fit_event c = (if component_needs_fitting c then Fit_transform (name c) else Transform (name c))"

text \<open>Recording the column labels of frames under names, one after the other.\<close>

definition record_names ::
  "('x, 'y, 'a) pandas \<Rightarrow> (string \<rightharpoonup> 'a pyval list) \<Rightarrow> (string \<times> 'x) list
     \<Rightarrow> (string \<rightharpoonup> 'a pyval list)" where
  "record_names P names frames = foldl (\<lambda>m (n, frame). m(n \<mapsto> columns P frame)) names frames"

text \<open>
  The wrapped estimator called directly on the features that come out of the
  pipeline's transform chain.
\<close>

definition estimator_on_transformed ::
  "('x, 'y, 'a, 's, 'r, 't) pipeline \<Rightarrow> 'x \<Rightarrow> 'a ndarray traced" where
  "estimator_on_transformed self X =
     tbind (PipelineBase__transform self X)
       (\<lambda>X_t. call (Predict (name (objects self (estimator self))))
                (predict (objects self (estimator self))
                   (component_obj (objects self (estimator self))) X_t))"

text \<open>How often a log shows the estimator computing labels, and probabilities.\<close>

fun is_Predict :: "event \<Rightarrow> bool" where
  "is_Predict (Predict n) = True"
| "is_Predict ev = False"

fun is_Predict_proba :: "event \<Rightarrow> bool" where
  "is_Predict_proba (Predict_proba n) = True"
| "is_Predict_proba ev = False"

definition label_computations :: "event list \<Rightarrow> nat" where
  "label_computations log = length (filter is_Predict log)"

definition probability_computations :: "event list \<Rightarrow> nat" where
  "probability_computations log = length (filter is_Predict_proba log)"

text \<open>
  Whether \<^verbatim>\<open>predict\<close> itself goes through \<^verbatim>\<open>predict_proba\<close>: the
  pipeline's objective needs fitting, and fits on probabilities.
\<close>

definition predict_uses_proba :: "('x, 'y, 'a, 's, 'r, 't) pipeline \<Rightarrow> bool" where
  "predict_uses_proba self =
     (case objective self of
        None \<Rightarrow> False
      | Some ob \<Rightarrow> needs_fitting ob \<and> fit_needs_proba ob)"

text \<open>
  An objective's score on the pipeline's predictions of the kind it needs: on what
  \<^verbatim>\<open>predict_proba\<close> returns when it scores probabilities, on what
  \<^verbatim>\<open>predict\<close> returns otherwise.
\<close>

definition scored_on_predictions ::
  "('x, 'y, 'a) pandas \<Rightarrow> ('x, 'y, 'a, 's, 'r, 't) pipeline \<Rightarrow> 'x \<Rightarrow> 'y
     \<Rightarrow> ('x, 'y, 'a, 't) objective \<Rightarrow> exn + 'a" where
  "scored_on_predictions P self X y ob =
     (case (if score_needs_proba ob then fst (PipelineBase_predict_proba P self X)
            else fst (PipelineBase_predict P self X)) of
        Inl e \<Rightarrow> Inl e
      | Inr predictions \<Rightarrow>
          o_score ob (o_state ob) predictions y
            (if uses_extra_columns ob then Some X else None))"

definition wants_labels :: "('x, 'y, 'a, 't) objective list \<Rightarrow> bool" where
  "wants_labels obs = (\<exists>ob \<in> set obs. \<not> score_needs_proba ob)"

definition wants_probabilities :: "('x, 'y, 'a, 't) objective list \<Rightarrow> bool" where
  "wants_probabilities obs = (\<exists>ob \<in> set obs. score_needs_proba ob)"

section \<open>A small library to run the model on\<close>

text \<open>
  A table is one sample: its columns, each a label and a number. A scaler adds one
  to every column and counts its fittings in its wrapped object; a selector keeps the
  first column and needs no fitting; a classifier predicts the sum of the columns, and
  as probabilities the two columns \<open>1 - sum\<close> and \<open>sum\<close>. The classes have no
  \<^verbatim>\<open>sklearn\<close> behind them: they stand for any library.
\<close>

type_synonym demo_table = "(string \<times> int) list"

type_synonym demo_component = "(demo_table, int list, int, nat, unit) component"

type_synonym demo_objective = "(demo_table, int list, int, int) objective"

type_synonym demo_pipeline = "(demo_table, int list, int, nat, unit, int) pipeline"

definition no_method :: exn where
  "no_method = Exception (OtherError ''NotImplementedError'') []"

definition refit ::
  "(demo_table, int list, nat, unit) wrapped_obj option
     \<Rightarrow> (demo_table, int list, nat, unit) wrapped_obj option" where
  "refit obj = map_option (\<lambda>w. w\<lparr>obj_state := Suc (obj_state w)\<rparr>) obj"

definition demo_obj :: "(demo_table, int list, nat, unit) wrapped_obj option" where
  "demo_obj = Some \<lparr>obj_state = 0, obj_fit = Some (\<lambda>s X y. Inr ((), Suc s))\<rparr>"

definition demo_scaler :: demo_component where
  "demo_scaler =
     \<lparr>name = ''Scaler'', component_type = ''transformer'', random_state = 0,
      component_needs_fitting = True, component_obj = demo_obj,
      parameters = [''n_components'' \<mapsto> PyNone],
      is_Estimator = False,
      transform = (\<lambda>obj X y. Inr (map (\<lambda>(l, v). (l, v + 1)) X)),
      fit_transform = (\<lambda>obj X y. Inr (map (\<lambda>(l, v). (l, v + 1)) X, refit obj)),
      fit = (\<lambda>obj X y. Inr (refit obj)),
      predict = (\<lambda>obj X. Inl no_method),
      predict_proba = (\<lambda>obj X. Inl no_method)\<rparr>"

definition demo_selector :: demo_component where
  "demo_selector =
     \<lparr>name = ''Selector'', component_type = ''transformer'', random_state = 0,
      component_needs_fitting = False, component_obj = demo_obj,
      parameters = Map.empty,
      is_Estimator = False,
      transform = (\<lambda>obj X y. Inr (take 1 X)),
      fit_transform = (\<lambda>obj X y. Inr (take 1 X, refit obj)),
      fit = (\<lambda>obj X y. Inr (refit obj)),
      predict = (\<lambda>obj X. Inl no_method),
      predict_proba = (\<lambda>obj X. Inl no_method)\<rparr>"

definition demo_classifier :: demo_component where
  "demo_classifier =
     \<lparr>name = ''Classifier'', component_type = ''classifier'', random_state = 0,
      component_needs_fitting = True, component_obj = demo_obj,
      parameters = [''n_estimators'' \<mapsto> PyInt 10],
      is_Estimator = True,
      transform = (\<lambda>obj X y. Inl no_method),
      fit_transform = (\<lambda>obj X y. Inl no_method),
      fit = (\<lambda>obj X y. Inr (refit obj)),
      predict = (\<lambda>obj X. Inr (Array1 [sum_list (map snd X)])),
      predict_proba =
        (\<lambda>obj X. Inr (Array2 2 [[1 - sum_list (map snd X), sum_list (map snd X)]]))\<rparr>"

text \<open>A classifier fitted on a single class: its probabilities have one column.\<close>

definition demo_one_class :: demo_component where
  "demo_one_class =
     demo_classifier\<lparr>predict_proba := (\<lambda>obj X. Inr (Array2 1 [[1]]))\<rparr>"

text \<open>
  The objects there are: a scaler at address 10, a selector at 11, a classifier at 12,
  the one-class classifier at 13 and a second selector at 14.
\<close>

definition demo_objects :: "nat \<Rightarrow> demo_component" where
  "demo_objects r =
     (if r = 10 then demo_scaler
      else if r = 12 then demo_classifier
      else if r = 13 then demo_one_class
      else demo_selector)"

text \<open>
  The entries of a component list are instances, given by their addresses;
  \<^verbatim>\<open>handle_component\<close> returns an instance as it is and refuses anything else.
\<close>

definition demo_handle_component ::
  "(nat \<Rightarrow> demo_component) \<Rightarrow> nat \<Rightarrow> exn + nat \<times> (nat \<Rightarrow> demo_component)" where
  "demo_handle_component h c =
     (if 10 \<le> c \<and> c \<le> 14 then Inr (c, h)
      else Inl (Exception ValueError ''handle_component only takes in str or ComponentBase''))"

definition demo_signature_parameters :: "demo_component \<Rightarrow> string list" where
  "demo_signature_parameters c =
     (if is_Estimator c then [''n_estimators'', ''n_jobs'', ''random_state'']
      else [''n_components'', ''random_state''])"

definition demo_class_call ::
  "demo_component \<Rightarrow> (string \<rightharpoonup> int pyval) \<Rightarrow> exn + demo_component" where
  "demo_class_call c args =
     (if is_Estimator c then
        Inr (c\<lparr>parameters :=
                 [''n_estimators'' \<mapsto>
                    (case args ''n_estimators'' of None \<Rightarrow> PyInt 10 | Some v \<Rightarrow> v)]\<rparr>)
      else
        Inr (c\<lparr>parameters :=
                 [''n_components'' \<mapsto>
                    (case args ''n_components'' of None \<Rightarrow> PyNone | Some v \<Rightarrow> v)]\<rparr>))"

text \<open>
  Objectives: one that scores labels, one that scores probabilities, and a cost
  objective that needs fitting on probabilities and turns them into labels by a
  threshold (its state); a second cost objective has the same name and another score.
\<close>

definition array_total :: "int ndarray \<Rightarrow> int" where
  "array_total a =
     (case a of Array1 xs \<Rightarrow> sum_list xs | Array2 n rows \<Rightarrow> sum_list (map sum_list rows))"

definition demo_f1 :: demo_objective where
  "demo_f1 =
     \<lparr>objective_name = ''F1'', greater_is_better = True, needs_fitting = False,
      fit_needs_proba = True, score_needs_proba = False, uses_extra_columns = False,
      o_state = 0,
      o_fit = (\<lambda>st y_predicted y_true X. Inr st),
      o_predict = (\<lambda>st y_predicted X. Inr y_predicted),
      o_score = (\<lambda>st y_predicted y_true X. Inr (array_total y_predicted + sum_list y_true))\<rparr>"

definition demo_auc :: demo_objective where
  "demo_auc =
     demo_f1\<lparr>objective_name := ''AUC'', score_needs_proba := True,
             o_score := (\<lambda>st y_predicted y_true X. Inr (2 * array_total y_predicted))\<rparr>"

definition demo_cost :: demo_objective where
  "demo_cost =
     \<lparr>objective_name = ''Fraud Cost'', greater_is_better = False, needs_fitting = True,
      fit_needs_proba = True, score_needs_proba = False, uses_extra_columns = True,
      o_state = 0,
      o_fit = (\<lambda>st y_predicted y_true X. Inr (st + 1)),
      o_predict =
        (\<lambda>st y_predicted X.
           case y_predicted of
             Array1 xs \<Rightarrow> Inr (Array1 (map (\<lambda>v. if st < v then 1 else 0) xs))
           | Array2 n rows \<Rightarrow> Inl (Exception ValueError ''one column expected'')),
      o_score = (\<lambda>st y_predicted y_true X. Inr (array_total y_predicted))\<rparr>"

definition demo_cost_doubled :: demo_objective where
  "demo_cost_doubled =
     demo_cost\<lparr>o_score := (\<lambda>st y_predicted y_true X. Inr (2 * array_total y_predicted + 7))\<rparr>"

definition demo_get_objective :: "string \<Rightarrow> exn + demo_objective option" where
  "demo_get_objective ob =
     (if ob = ''f1'' then Inr (Some demo_f1)
      else if ob = ''auc'' then Inr (Some demo_auc)
      else if ob = ''cost'' then Inr (Some demo_cost)
      else if ob = ''cost doubled'' then Inr (Some demo_cost_doubled)
      else Inl (Exception KeyError ob))"

definition demo_pandas :: "(demo_table, int list, int) pandas" where
  "demo_pandas =
     \<lparr>isinstance_DataFrame = (\<lambda>X. True),
      pd_DataFrame = (\<lambda>X. Inr X),
      columns = (\<lambda>X. map (\<lambda>(l, v). PyStr l) X),
      isinstance_Series = (\<lambda>y. True),
      pd_Series = (\<lambda>y. Inr y),
      train_test_split = (\<lambda>X y test_size seed. Inr (X, X, y, y))\<rparr>"

definition demo_X :: demo_table where
  "demo_X = [(''a'', 1), (''b'', 2)]"

definition demo_y :: "int list" where
  "demo_y = [1]"

text \<open>
  The pipeline \<^verbatim>\<open>PipelineBase(objective, [scaler, selector, classifier], n_jobs=1,
  random_state=0)\<close> as the constructor leaves it, with the objective as a parameter.
\<close>

definition demo_pipeline :: "demo_objective \<Rightarrow> demo_pipeline" where
  "demo_pipeline ob =
     \<lparr>objective = Some ob, pipeline_random_state = 0,
      component_list = [10, 11, 12],
      component_names = [''Scaler'', ''Selector'', ''Classifier''],
      input_feature_names = Map.empty, estimator = 12,
      pipeline_name = ''Classifier w/ Scaler + Selector'', n_jobs = 1,
      pipeline_parameters = [''n_components'' \<mapsto> PyNone, ''n_estimators'' \<mapsto> PyInt 10],
      objects = demo_objects\<rparr>"

text \<open>The same pipeline around the classifier fitted on a single class.\<close>

definition demo_pipeline_one_class :: "demo_objective \<Rightarrow> demo_pipeline" where
  "demo_pipeline_one_class ob = (demo_pipeline ob)\<lparr>component_list := [10, 11, 13], estimator := 13\<rparr>"

text \<open>
  A pipeline of the two selectors and the classifier, and one in which the scaler
  stands twice.
\<close>

definition demo_pipeline_selectors :: "demo_objective \<Rightarrow> demo_pipeline" where
  "demo_pipeline_selectors ob =
     (demo_pipeline ob)\<lparr>component_list := [11, 14, 12],
                        component_names := [''Selector'', ''Selector'', ''Classifier''],
                        pipeline_name := ''Classifier w/ Selector + Selector''\<rparr>"

definition demo_pipeline_scaler_twice :: "demo_objective \<Rightarrow> demo_pipeline" where
  "demo_pipeline_scaler_twice ob =
     (demo_pipeline ob)\<lparr>component_list := [10, 10, 12],
                        component_names := [''Scaler'', ''Scaler'', ''Classifier''],
                        pipeline_name := ''Classifier w/ Scaler + Scaler''\<rparr>"

text \<open>
  The objects after \<^verbatim>\<open>fit\<close> of the first pipeline on \<open>demo_X\<close> and
  \<open>demo_y\<close>: the scaler and the classifier have been fitted once.
\<close>

definition demo_objects_fitted :: "nat \<Rightarrow> demo_component" where
  "demo_objects_fitted =
     demo_objects(10 := demo_scaler\<lparr>component_obj := refit demo_obj\<rparr>,
                  12 := demo_classifier\<lparr>component_obj := refit demo_obj\<rparr>)"

text \<open>
  The pipeline with the cost objective after that \<^verbatim>\<open>fit\<close>: the feature names
  each component saw are on record, and the objective has been fitted once.
\<close>

definition demo_fitted_cost :: demo_pipeline where
  "demo_fitted_cost =
     \<lparr>objective = Some (demo_cost\<lparr>o_state := 1\<rparr>), pipeline_random_state = 0,
      component_list = [10, 11, 12],
      component_names = [''Scaler'', ''Selector'', ''Classifier''],
      input_feature_names =
        [''Scaler'' \<mapsto> [PyStr ''a'', PyStr ''b''],
         ''Selector'' \<mapsto> [PyStr ''a'', PyStr ''b''],
         ''Classifier'' \<mapsto> [PyStr ''a'']],
      estimator = 12,
      pipeline_name = ''Classifier w/ Scaler + Selector'', n_jobs = 1,
      pipeline_parameters = [''n_components'' \<mapsto> PyNone, ''n_estimators'' \<mapsto> PyInt 10],
      objects = demo_objects_fitted\<rparr>"

text \<open>The pipeline with the label objective after \<^verbatim>\<open>fit\<close> on the same data.\<close>

definition demo_fitted_f1 :: demo_pipeline where
  "demo_fitted_f1 = demo_fitted_cost\<lparr>objective := Some demo_f1\<rparr>"

text \<open>
  The pipeline around the one-class classifier, with the label objective, after
  \<^verbatim>\<open>fit\<close> on the same data.
\<close>

definition demo_fitted_one_class :: demo_pipeline where
  "demo_fitted_one_class =
     \<lparr>objective = Some demo_f1, pipeline_random_state = 0,
      component_list = [10, 11, 13],
      component_names = [''Scaler'', ''Selector'', ''Classifier''],
      input_feature_names =
        [''Scaler'' \<mapsto> [PyStr ''a'', PyStr ''b''],
         ''Selector'' \<mapsto> [PyStr ''a'', PyStr ''b''],
         ''Classifier'' \<mapsto> [PyStr ''a'']],
      estimator = 13,
      pipeline_name = ''Classifier w/ Scaler + Selector'', n_jobs = 1,
      pipeline_parameters = [''n_components'' \<mapsto> PyNone, ''n_estimators'' \<mapsto> PyInt 10],
      objects =
        demo_objects(10 := demo_scaler\<lparr>component_obj := refit demo_obj\<rparr>,
                     13 := demo_one_class\<lparr>component_obj := refit demo_obj\<rparr>)\<rparr>"

text \<open>
  A plain component for \<^verbatim>\<open>ComponentBase.fit\<close>: its wrapped object has a
  \<^verbatim>\<open>fit\<close>, which raises an \<^verbatim>\<open>AttributeError\<close> of its own on the data.
\<close>

definition library_attribute_error :: exn where
  "library_attribute_error = Exception AttributeError ''list object has no attribute shape''"

definition demo_faulty :: "(demo_table, int list, int, nat, unit) ComponentBase" where
  "demo_faulty =
     \<lparr>name = ''Faulty'', component_type = ''classifier'', random_state = 0,
      component_needs_fitting = True,
      component_obj =
        Some \<lparr>obj_state = 0, obj_fit = Some (\<lambda>s X y. Inl library_attribute_error)\<rparr>,
      parameters = Map.empty\<rparr>"

section \<open>Basic facts about logged results\<close>

lemma tbind_ret [simp]: "tbind (ret v) f = f v"
  by (simp add: tbind_def ret_def)

lemma tbind_raise [simp]: "tbind (raise e) f = raise e"
  by (simp add: tbind_def raise_def)

lemma tbind_lift_Inr [simp]: "tbind (lift (Inr v)) f = f v"
  by (simp add: tbind_def lift_def)

lemma tbind_lift_Inl [simp]: "tbind (lift (Inl e)) f = raise e"
  by (simp add: tbind_def lift_def raise_def)

lemma tbind_call_Inr [simp]: "tbind (call ev (Inr v)) f = (fst (f v), ev # snd (f v))"
  by (simp add: tbind_def call_def)

lemma tbind_call_Inl [simp]: "tbind (call ev (Inl e)) f = (Inl e, [ev])"
  by (simp add: tbind_def call_def)

lemma fst_tbind:
  "fst (tbind m f) = (case fst m of Inl e \<Rightarrow> Inl e | Inr v \<Rightarrow> fst (f v))"
  by (simp add: tbind_def split: sum.splits)

lemma snd_tbind:
  "snd (tbind m f) = (case fst m of Inl e \<Rightarrow> snd m | Inr v \<Rightarrow> snd m @ snd (f v))"
  by (simp add: tbind_def split: sum.splits)

lemma fst_ret [simp]: "fst (ret v) = Inr v"
  by (simp add: ret_def)

lemma snd_ret [simp]: "snd (ret v) = []"
  by (simp add: ret_def)

lemma fst_raise [simp]: "fst (raise e) = Inl e"
  by (simp add: raise_def)

lemma snd_raise [simp]: "snd (raise e) = []"
  by (simp add: raise_def)

lemma fst_call [simp]: "fst (call ev r) = r"
  by (simp add: call_def)

lemma snd_call [simp]: "snd (call ev r) = [ev]"
  by (simp add: call_def)

lemma fst_lift [simp]: "fst (lift r) = r"
  by (simp add: lift_def)

lemma snd_lift [simp]: "snd (lift r) = []"
  by (simp add: lift_def)

lemma tbind_Inr [simp]: "tbind (Inr v, t) f = (fst (f v), t @ snd (f v))"
  by (simp add: tbind_def)

lemma tbind_Inl [simp]: "tbind (Inl e, t) f = (Inl e, t)"
  by (simp add: tbind_def)

section \<open>The example library, evaluated\<close>

lemma demo_objects_simps [simp]:
  "demo_objects 10 = demo_scaler"
  "demo_objects 11 = demo_selector"
  "demo_objects 12 = demo_classifier"
  "demo_objects 13 = demo_one_class"
  "demo_objects 14 = demo_selector"
  by (simp_all add: demo_objects_def)

lemma demo_objects_fitted_simps [simp]:
  "demo_objects_fitted 10 = demo_scaler\<lparr>component_obj := refit demo_obj\<rparr>"
  "demo_objects_fitted 11 = demo_selector"
  "demo_objects_fitted 12 = demo_classifier\<lparr>component_obj := refit demo_obj\<rparr>"
  by (simp_all add: demo_objects_fitted_def)

lemma demo_handled:
  "handle_components demo_handle_component demo_objects [10, 11, 12]
     = Inr ([10, 11, 12], demo_objects)"
  by (simp add: demo_handle_component_def)

lemma demo_names [simp]:
  "name demo_scaler = ''Scaler''"
  "name demo_selector = ''Selector''"
  "name demo_classifier = ''Classifier''"
  "name demo_one_class = ''Classifier''"
  "is_Estimator demo_classifier"
  "is_Estimator demo_one_class"
  "\<not> is_Estimator demo_scaler"
  "\<not> is_Estimator demo_selector"
  by (simp_all add: demo_scaler_def demo_selector_def demo_classifier_def demo_one_class_def)

lemma demo_parameters [simp]:
  "parameters demo_scaler = [''n_components'' \<mapsto> PyNone]"
  "parameters demo_selector = Map.empty"
  "parameters demo_classifier = [''n_estimators'' \<mapsto> PyInt 10]"
  by (simp_all add: demo_scaler_def demo_selector_def demo_classifier_def)

lemma demo_get_objective_simps [simp]:
  "demo_get_objective ''f1'' = Inr (Some demo_f1)"
  "demo_get_objective ''auc'' = Inr (Some demo_auc)"
  "demo_get_objective ''cost'' = Inr (Some demo_cost)"
  "demo_get_objective ''cost doubled'' = Inr (Some demo_cost_doubled)"
  by (simp_all add: demo_get_objective_def)


section \<open>Construction\<close>







text \<open>
  C1. Whenever the components handed to the constructor resolve to a non-empty list
  whose last element is not an \<^verbatim>\<open>Estimator\<close>, the constructor returns no pipeline;
  once \<^verbatim>\<open>get_objective\<close> has returned, what it raises is the \<^verbatim>\<open>ValueError\<close>
  of the check. No pipeline object comes into being, so nothing can be fitted or asked
  to predict.
\<close>

theorem init_rejects_non_estimator:
  assumes "handle_components handle_component heap component_list_arg = Inr (cl, h)"
      and "cl \<noteq> []"
      and "\<not> is_Estimator (h (last cl))"
  shows "(\<forall>p. PipelineBase_init get_objective handle_component signature_parameters class_call
           heap objective_arg component_list_arg n_jobs_arg random_state_arg kwargs \<noteq> Inr p)
       \<and> (\<forall>ob. get_objective objective_arg = Inr ob \<longrightarrow>
           PipelineBase_init get_objective handle_component signature_parameters class_call
             heap objective_arg component_list_arg n_jobs_arg random_state_arg kwargs
           = Inl not_an_estimator)
       \<and> exc not_an_estimator = ValueError"
  using assms
  by (auto simp: PipelineBase_init_def not_an_estimator_def split: sum.splits list.splits)

theorem init_rejects_non_estimator_witness:
  "PipelineBase_init demo_get_objective demo_handle_component demo_signature_parameters
     demo_class_call demo_objects ''f1'' [12, 10] 1 0 Map.empty = Inl not_an_estimator"
proof -
  have h: "handle_components demo_handle_component demo_objects [12, 10]
             = Inr ([12, 10], demo_objects)"
    by (simp add: demo_handle_component_def)
  have e: "\<not> is_Estimator (demo_objects (last [12, 10]))"
    by simp
  have g: "demo_get_objective ''f1'' = Inr (Some demo_f1)"
    by simp
  from init_rejects_non_estimator [OF h _ e, of demo_get_objective demo_signature_parameters
     demo_class_call "''f1''" 1 0 Map.empty] g
  show ?thesis by simp
qed

text \<open>
  C5, at a failing input. The pipeline is built from a scaler, a selector and a
  classifier with the keyword arguments \<^verbatim>\<open>n_components=3, n_estimators=100\<close>.
  The constructor returns the pipeline it returns without them: the component list
  holds the components as \<^verbatim>\<open>handle_component\<close> made them, and the parameters
  mapping shows their defaults (\<^verbatim>\<open>n_components\<close> is \<^verbatim>\<open>None\<close>,
  \<^verbatim>\<open>n_estimators\<close> is 10).
\<close>

theorem init_discards_keyword_arguments:
  "PipelineBase_init demo_get_objective demo_handle_component demo_signature_parameters
     demo_class_call demo_objects ''f1'' [10, 11, 12] 1 0
     [''n_components'' \<mapsto> PyInt 3, ''n_estimators'' \<mapsto> PyInt 100]
   = Inr (demo_pipeline demo_f1)
   \<and> pipeline_parameters (demo_pipeline demo_f1) ''n_components'' = Some PyNone
   \<and> pipeline_parameters (demo_pipeline demo_f1) ''n_estimators'' = Some (PyInt 10)
   \<and> map (\<lambda>r. parameters (objects (demo_pipeline demo_f1) r))
         (component_list (demo_pipeline demo_f1))
       = [[''n_components'' \<mapsto> PyNone], Map.empty, [''n_estimators'' \<mapsto> PyInt 10]]"
  by (simp add: PipelineBase_init_def demo_handled demo_get_objective_def
        PipelineBase__instantiate_components_def PipelineBase__generate_name_def
        demo_class_call_def demo_pipeline_def Let_def del: handle_components.simps)


lemma demo_init:
  "PipelineBase_init demo_get_objective demo_handle_component demo_signature_parameters
     demo_class_call demo_objects ''f1'' [10, 11, 12] 1 0 Map.empty
   = Inr (demo_pipeline demo_f1)"
  by (simp add: PipelineBase_init_def demo_handled demo_get_objective_def
        PipelineBase__instantiate_components_def PipelineBase__generate_name_def
        demo_class_call_def demo_pipeline_def Let_def del: handle_components.simps)


section \<open>Components and objectives\<close>

text \<open>
  C9. The score of the \<^verbatim>\<open>Recall\<close> objective is the score of the \<^verbatim>\<open>F1\<close>
  objective on every pair of inputs: both call \<^verbatim>\<open>f1_score\<close>.
\<close>

theorem Recall_score_is_F1_score:
  "Recall_score M y_predicted y_true = F1_score M y_predicted y_true"
  by (simp add: Recall_score_def F1_score_def)

text \<open>
  C4, at a failing input. The wrapped object of \<open>demo_faulty\<close> has a \<^verbatim>\<open>fit\<close>
  method; called on the data, that method raises an \<^verbatim>\<open>AttributeError\<close> of its
  own; and the component's \<^verbatim>\<open>fit\<close> raises the misconfigured-component
  \<^verbatim>\<open>RuntimeError\<close> in its place, another exception than the library's.
\<close>

theorem ComponentBase_fit_translates_library_error:
  "map_sum id (\<lambda>m. m demo_X demo_y) (getattr_fit (component_obj demo_faulty))
     = Inr (Inl library_attribute_error)
   \<and> ComponentBase_fit demo_faulty demo_X demo_y = Inl misconfigured_component
   \<and> misconfigured_component \<noteq> library_attribute_error"
  by (simp add: getattr_fit_def demo_faulty_def ComponentBase_fit_def
        misconfigured_component_def library_attribute_error_def)

section \<open>Fitting\<close>

text \<open>Fitting changes the wrapped object of a component and nothing else of it.\<close>

lemma apply_component_keeps:
  assumes "apply_component h r X y = Inr (X', h')"
  shows "name (h' r') = name (h r')"
    and "component_needs_fitting (h' r') = component_needs_fitting (h r')"
  using assms
  by (auto simp: apply_component_def split: if_splits sum.splits prod.splits)

lemma thread_keeps:
  assumes "thread h rs X y = Inr (seen, h', X_t)"
  shows "name (h' r') = name (h r') \<and> component_needs_fitting (h' r') = component_needs_fitting (h r')"
  using assms
proof (induction rs arbitrary: h X seen)
  case Nil
  then show ?case by simp
next
  case (Cons r rs)
  from Cons.prems obtain X1 h1 seen1 where
    a: "apply_component h r X y = Inr (X1, h1)" and t: "thread h1 rs X1 y = Inr (seen1, h', X_t)"
    by (auto split: sum.splits prod.splits)
  from Cons.IH [OF t] apply_component_keeps [OF a, of r'] show ?case by simp
qed

lemma thread_names:
  "thread h rs X y = Inr (seen, h', X_t) \<Longrightarrow> map fst seen = map (\<lambda>r. name (h r)) rs"
proof (induction rs arbitrary: h X seen)
  case Nil
  then show ?case by simp
next
  case (Cons r rs)
  from Cons.prems obtain X1 h1 seen1 where
    a: "apply_component h r X y = Inr (X1, h1)" and t: "thread h1 rs X1 y = Inr (seen1, h', X_t)"
    and s: "seen = (name (h r), X) # seen1"
    by (auto split: sum.splits prod.splits)
  have "map (\<lambda>r. name (h1 r)) rs = map (\<lambda>r. name (h r)) rs"
    using apply_component_keeps(1) [OF a] by simp
  with Cons.IH [OF t] s show ?case by simp
qed

text \<open>One round of the loop of \<^verbatim>\<open>_fit\<close>.\<close>

lemma fit_loop_Cons:
  "fit_loop P h (r # rs) y X names =
     (case pd_DataFrame P X of
        Inl e \<Rightarrow> (Inl e, [])
      | Inr frame \<Rightarrow>
          (case apply_component h r X y of
             Inl e \<Rightarrow> (Inl e, [fit_event (h r)])
           | Inr (X', h') \<Rightarrow>
               (fst (fit_loop P h' rs y X' (names(name (h r) \<mapsto> columns P frame))),
                fit_event (h r)
                # snd (fit_loop P h' rs y X' (names(name (h r) \<mapsto> columns P frame))))))"
  by (simp add: apply_component_def fit_event_def tbind_def call_def ret_def lift_def Let_def
        split: sum.splits prod.splits)

lemma record_names_Cons:
  "record_names P names ((n, frame) # frames)
     = record_names P (names(n \<mapsto> columns P frame)) frames"
  by (simp add: record_names_def)

lemma fit_loop_returns:
  assumes "thread h rs X y = Inr (seen, h', X_t)"
      and "map_raise (pd_DataFrame P) (map snd seen) = Inr frames"
  shows "fit_loop P h rs y X names
           = (Inr (X_t, record_names P names (zip (map fst seen) frames), h'),
              map (\<lambda>r. fit_event (h r)) rs)"
  using assms
proof (induction rs arbitrary: h X names seen frames)
  case Nil
  then show ?case by (auto simp: record_names_def ret_def)
next
  case (Cons r rs)
  from Cons.prems(1) obtain X1 h1 seen1 where
    a: "apply_component h r X y = Inr (X1, h1)" and t: "thread h1 rs X1 y = Inr (seen1, h', X_t)"
    and s: "seen = (name (h r), X) # seen1"
    by (auto split: sum.splits prod.splits)
  from Cons.prems(2) s obtain frame frames1 where
    f: "pd_DataFrame P X = Inr frame" and fs: "map_raise (pd_DataFrame P) (map snd seen1) = Inr frames1"
    and fr: "frames = frame # frames1"
    by (auto split: sum.splits)
  have ev: "map (\<lambda>r. fit_event (h1 r)) rs = map (\<lambda>r. fit_event (h r)) rs"
    using apply_component_keeps [OF a] by (simp add: fit_event_def)
  define names' where "names' = names(name (h r) \<mapsto> columns P frame)"
  have rest: "fit_loop P h1 rs y X1 names'
           = (Inr (X_t, record_names P names' (zip (map fst seen1) frames1), h'),
              map (\<lambda>r. fit_event (h1 r)) rs)"
    by (rule Cons.IH [OF t fs])
  have step: "fit_loop P h (r # rs) y X names
           = (fst (fit_loop P h1 rs y X1 names'), fit_event (h r) # snd (fit_loop P h1 rs y X1 names'))"
    unfolding names'_def by (simp add: fit_loop_Cons a f del: fit_loop.simps)
  have rec: "record_names P names (zip (map fst seen) frames)
               = record_names P names' (zip (map fst seen1) frames1)"
    unfolding names'_def by (simp add: s fr record_names_Cons)
  show ?case
    unfolding step rest rec by (simp add: ev)
qed

lemma fit_loop_Inr:
  assumes "fst (fit_loop P h rs y X names) = Inr res"
  shows "\<exists>seen h' X_t frames.
           thread h rs X y = Inr (seen, h', X_t)
         \<and> map_raise (pd_DataFrame P) (map snd seen) = Inr frames"
  using assms
proof (induction rs arbitrary: h X names)
  case Nil
  show ?case by simp
next
  case (Cons r rs)
  from Cons.prems obtain frame where f: "pd_DataFrame P X = Inr frame"
    by (cases "pd_DataFrame P X") (simp_all add: fit_loop_Cons del: fit_loop.simps)
  from Cons.prems f obtain X1 h1 where a: "apply_component h r X y = Inr (X1, h1)"
    by (cases "apply_component h r X y") (auto simp: fit_loop_Cons simp del: fit_loop.simps)
  define names' where "names' = names(name (h r) \<mapsto> columns P frame)"
  have "fit_loop P h (r # rs) y X names
           = (fst (fit_loop P h1 rs y X1 names'), fit_event (h r) # snd (fit_loop P h1 rs y X1 names'))"
    unfolding names'_def by (simp add: fit_loop_Cons a f del: fit_loop.simps)
  with Cons.prems have "fst (fit_loop P h1 rs y X1 names') = Inr res"
    by (simp del: fit_loop.simps)
  from Cons.IH [OF this] obtain seen1 h' X_t frames1 where
    "thread h1 rs X1 y = Inr (seen1, h', X_t)"
    "map_raise (pd_DataFrame P) (map snd seen1) = Inr frames1"
    by blast
  with a f show ?case by simp
qed

lemma map_raise_append:
  "map_raise f (xs @ [x]) =
     (case map_raise f xs of
        Inl e \<Rightarrow> Inl e
      | Inr ys \<Rightarrow> (case f x of Inl e \<Rightarrow> Inl e | Inr v \<Rightarrow> Inr (ys @ [v])))"
  by (induction xs) (auto split: sum.splits)

lemma map_raise_length:
  "map_raise f xs = Inr ys \<Longrightarrow> length ys = length xs"
  by (induction xs arbitrary: ys) (auto split: sum.splits)

lemma record_names_append:
  "record_names P names (frames @ [(n, frame)])
     = (record_names P names frames)(n \<mapsto> columns P frame)"
  by (simp add: record_names_def)

text \<open>With distinct names every record stays.\<close>

lemma record_names_other:
  "n \<notin> fst ` set frames \<Longrightarrow> record_names P names frames n = names n"
proof (induction frames arbitrary: names)
  case Nil
  show ?case by (simp add: record_names_def)
next
  case (Cons nf frames)
  obtain n' f where nf: "nf = (n', f)" by (cases nf)
  define names' where "names' = names(n' \<mapsto> columns P f)"
  from Cons.prems have "n \<notin> fst ` set frames" and ne: "n \<noteq> n'" by (auto simp: nf)
  then have "record_names P names' frames n = names' n"
    by (intro Cons.IH)
  moreover have "names' n = names n"
    using ne by (simp add: names'_def)
  moreover have "record_names P names (nf # frames) = record_names P names' frames"
    by (simp add: nf record_names_Cons names'_def)
  ultimately show ?case by simp
qed

lemma record_names_nth:
  assumes "distinct (map fst frames)" and "i < length frames"
  shows "record_names P names frames (fst (frames ! i)) = Some (columns P (snd (frames ! i)))"
  using assms
proof (induction frames arbitrary: names i)
  case Nil
  then show ?case by simp
next
  case (Cons nf frames)
  obtain n f where nf: "nf = (n, f)" by (cases nf)
  show ?case
  proof (cases i)
    case 0
    from Cons.prems(1) have "n \<notin> fst ` set frames" by (simp add: nf)
    then show ?thesis
      by (simp add: 0 nf record_names_Cons record_names_other)
  next
    case (Suc j)
    with Cons.prems have "distinct (map fst frames)" and "j < length frames" by simp_all
    from Cons.IH [OF this] show ?thesis
      by (simp add: Suc nf record_names_Cons)
  qed
qed


text \<open>
  C6, as the code has it. When threading the data through the non-final components
  returns (each called in list order, with \<open>fit_transform\<close> when it needs fitting and
  with \<open>transform\<close> otherwise), every table seen and the table that comes out can be
  made a frame, and the estimator's \<^verbatim>\<open>fit\<close> on the table that comes out returns,
  then \<^verbatim>\<open>_fit\<close> returns: the objects are as the fitting left them, with the
  estimator fitted on that table; the column labels of each frame have been recorded,
  one after the other, under the name of the component that was given the table and
  last under the estimator's, a later record replacing an earlier one under the same
  name, so that with pairwise distinct names every record is there; and the calls made
  are one per non-final component, of the kind just said, then the estimator's
  \<^verbatim>\<open>fit\<close>. And \<^verbatim>\<open>_fit\<close> returns in no other case.
\<close>

theorem fit_threads_records_and_fits:
  "(\<forall>seen h X_t frames obj.
       thread (objects self) (butlast (component_list self)) X y = Inr (seen, h, X_t)
     \<and> map_raise (pd_DataFrame P) (map snd seen @ [X_t]) = Inr frames
     \<and> fit (h (estimator self)) (component_obj (h (estimator self))) X_t y = Inr obj
     \<longrightarrow>
       PipelineBase__fit P self X y
         = (Inr (self\<lparr>input_feature_names :=
                       record_names P (input_feature_names self)
                         (zip (map fst seen @ [name (h (estimator self))]) frames),
                    objects :=
                      h(estimator self := (h (estimator self))\<lparr>component_obj := obj\<rparr>)\<rparr>),
            map (\<lambda>r. fit_event (objects self r)) (butlast (component_list self))
            @ [Fit (name (objects self (estimator self)))])
     \<and> map fst seen = map (\<lambda>r. name (objects self r)) (butlast (component_list self))
     \<and> name (h (estimator self)) = name (objects self (estimator self))
     \<and> length frames = length seen + 1
     \<and> (distinct (map fst seen @ [name (h (estimator self))]) \<longrightarrow>
          (\<forall>i < length frames.
             record_names P (input_feature_names self)
               (zip (map fst seen @ [name (h (estimator self))]) frames)
               ((map fst seen @ [name (h (estimator self))]) ! i)
             = Some (columns P (frames ! i)))))
   \<and> ((\<exists>fitted. fst (PipelineBase__fit P self X y) = Inr fitted) \<longrightarrow>
        (\<exists>seen h X_t frames obj.
           thread (objects self) (butlast (component_list self)) X y = Inr (seen, h, X_t)
         \<and> map_raise (pd_DataFrame P) (map snd seen @ [X_t]) = Inr frames
         \<and> fit (h (estimator self)) (component_obj (h (estimator self))) X_t y = Inr obj))"
proof -
  let ?rs = "butlast (component_list self)"
  have there: "PipelineBase__fit P self X y
         = (Inr (self\<lparr>input_feature_names :=
                       record_names P (input_feature_names self)
                         (zip (map fst seen @ [name (h (estimator self))]) frames),
                    objects :=
                      h(estimator self := (h (estimator self))\<lparr>component_obj := obj\<rparr>)\<rparr>),
            map (\<lambda>r. fit_event (objects self r)) ?rs
            @ [Fit (name (objects self (estimator self)))])
     \<and> map fst seen = map (\<lambda>r. name (objects self r)) ?rs
     \<and> name (h (estimator self)) = name (objects self (estimator self))
     \<and> length frames = length seen + 1
     \<and> (distinct (map fst seen @ [name (h (estimator self))]) \<longrightarrow>
          (\<forall>i < length frames.
             record_names P (input_feature_names self)
               (zip (map fst seen @ [name (h (estimator self))]) frames)
               ((map fst seen @ [name (h (estimator self))]) ! i)
             = Some (columns P (frames ! i))))"
    if t: "thread (objects self) ?rs X y = Inr (seen, h, X_t)"
      and f: "map_raise (pd_DataFrame P) (map snd seen @ [X_t]) = Inr frames"
      and e: "fit (h (estimator self)) (component_obj (h (estimator self))) X_t y = Inr obj"
    for seen h X_t frames obj
  proof -
    from f obtain frames1 frame where
      f1: "map_raise (pd_DataFrame P) (map snd seen) = Inr frames1"
      and f2: "pd_DataFrame P X_t = Inr frame" and fr: "frames = frames1 @ [frame]"
      by (auto simp: map_raise_append split: sum.splits)
    from map_raise_length [OF f1] have len: "length frames1 = length seen" by simp
    have nm: "name (h (estimator self)) = name (objects self (estimator self))"
      using thread_keeps [OF t] by simp
    have names: "map fst seen = map (\<lambda>r. name (objects self r)) ?rs"
      by (rule thread_names [OF t])
    let ?pairs = "zip (map fst seen @ [name (h (estimator self))]) frames"
    have z: "?pairs = zip (map fst seen) frames1 @ [(name (h (estimator self)), frame)]"
      using len by (simp add: fr)
    have run: "PipelineBase__fit P self X y
         = (Inr (self\<lparr>input_feature_names := record_names P (input_feature_names self) ?pairs,
                    objects :=
                      h(estimator self := (h (estimator self))\<lparr>component_obj := obj\<rparr>)\<rparr>),
            map (\<lambda>r. fit_event (objects self r)) ?rs
            @ [Fit (name (objects self (estimator self)))])"
      unfolding z
      by (simp add: PipelineBase__fit_def fit_loop_returns [OF t f1] f2 e Let_def nm
            record_names_append)
    have keys: "map fst ?pairs = map fst seen @ [name (h (estimator self))]"
      using len by (simp add: fr)
    have rec: "record_names P (input_feature_names self) ?pairs
                 ((map fst seen @ [name (h (estimator self))]) ! i)
               = Some (columns P (frames ! i))"
      if d: "distinct (map fst seen @ [name (h (estimator self))])" and i: "i < length frames"
      for i
    proof -
      from len i have i': "i < length ?pairs" by (simp add: fr)
      from d keys have "distinct (map fst ?pairs)" by simp
      from record_names_nth [OF this i', of P "input_feature_names self"]
      have "record_names P (input_feature_names self) ?pairs (map fst ?pairs ! i)
              = Some (columns P (map snd ?pairs ! i))"
        using i' by simp
      moreover have "map snd ?pairs = frames"
        using len by (simp add: fr)
      ultimately show ?thesis
        unfolding keys by simp
    qed
    from run names nm len rec show ?thesis
      by (simp add: fr)
  qed
  have only: "\<exists>seen h X_t frames obj.
           thread (objects self) ?rs X y = Inr (seen, h, X_t)
         \<and> map_raise (pd_DataFrame P) (map snd seen @ [X_t]) = Inr frames
         \<and> fit (h (estimator self)) (component_obj (h (estimator self))) X_t y = Inr obj"
    if s: "fst (PipelineBase__fit P self X y) = Inr fitted" for fitted
  proof -
    from s obtain res where
      l: "fst (fit_loop P (objects self) ?rs y X (input_feature_names self)) = Inr res"
      by (cases "fst (fit_loop P (objects self) ?rs y X (input_feature_names self))")
         (simp_all add: PipelineBase__fit_def fst_tbind)
    from fit_loop_Inr [OF l] obtain seen h X_t frames1 where
      t: "thread (objects self) ?rs X y = Inr (seen, h, X_t)"
      and f1: "map_raise (pd_DataFrame P) (map snd seen) = Inr frames1"
      by blast
    from s obtain frame where f2: "pd_DataFrame P X_t = Inr frame"
      by (cases "pd_DataFrame P X_t")
         (simp_all add: PipelineBase__fit_def fit_loop_returns [OF t f1] Let_def)
    from s f2 obtain obj where
      "fit (h (estimator self)) (component_obj (h (estimator self))) X_t y = Inr obj"
      by (cases "fit (h (estimator self)) (component_obj (h (estimator self))) X_t y")
         (simp_all add: PipelineBase__fit_def fit_loop_returns [OF t f1] Let_def)
    with t f1 f2 show ?thesis
      by (simp add: map_raise_append)
  qed
  from there only show ?thesis by blast
qed

subsection \<open>The example pipelines, fitted\<close>

lemma demo_pandas_simps [simp]:
  "as_DataFrame demo_pandas X = Inr X"
  "as_Series demo_pandas y = Inr y"
  "columns demo_pandas X = map (\<lambda>(l, v). PyStr l) X"
  "pd_DataFrame demo_pandas X = Inr X"
  "train_test_split demo_pandas X y sz seed = Inr (X, X, y, y)"
  by (simp_all add: as_DataFrame_def as_Series_def demo_pandas_def)

lemma demo_scaler_simps [simp]:
  "component_obj demo_scaler = demo_obj"
  "component_needs_fitting demo_scaler"
  "transform demo_scaler obj X y = Inr (map (\<lambda>(l, v). (l, v + 1)) X)"
  "fit_transform demo_scaler obj X y = Inr (map (\<lambda>(l, v). (l, v + 1)) X, refit obj)"
  by (simp_all add: demo_scaler_def)

lemma demo_selector_simps [simp]:
  "component_obj demo_selector = demo_obj"
  "\<not> component_needs_fitting demo_selector"
  "transform demo_selector obj X y = Inr (take 1 X)"
  by (simp_all add: demo_selector_def)

lemma demo_classifier_simps [simp]:
  "component_obj demo_classifier = demo_obj"
  "fit demo_classifier obj X yt = Inr (refit obj)"
  "predict demo_classifier obj X = Inr (Array1 [sum_list (map snd X)])"
  "predict_proba demo_classifier obj X
     = Inr (Array2 2 [[1 - sum_list (map snd X), sum_list (map snd X)]])"
  by (simp_all add: demo_classifier_def)

lemma demo_one_class_simps [simp]:
  "component_obj demo_one_class = demo_obj"
  "fit demo_one_class obj X yt = Inr (refit obj)"
  "predict demo_one_class obj X = Inr (Array1 [sum_list (map snd X)])"
  "predict_proba demo_one_class obj X = Inr (Array2 1 [[1]])"
  by (simp_all add: demo_one_class_def)

lemma demo_pipeline_simps [simp]:
  "objective (demo_pipeline ob) = Some ob"
  "component_list (demo_pipeline ob) = [10, 11, 12]"
  "estimator (demo_pipeline ob) = 12"
  "input_feature_names (demo_pipeline ob) = Map.empty"
  "pipeline_random_state (demo_pipeline ob) = 0"
  "objects (demo_pipeline ob) = demo_objects"
  by (simp_all add: demo_pipeline_def)

lemma demo_pipeline_one_class_simps [simp]:
  "objective (demo_pipeline_one_class ob) = Some ob"
  "component_list (demo_pipeline_one_class ob) = [10, 11, 13]"
  "estimator (demo_pipeline_one_class ob) = 13"
  "input_feature_names (demo_pipeline_one_class ob) = Map.empty"
  "objects (demo_pipeline_one_class ob) = demo_objects"
  by (simp_all add: demo_pipeline_one_class_def)

lemma demo_pipeline_selectors_simps [simp]:
  "objective (demo_pipeline_selectors ob) = Some ob"
  "component_list (demo_pipeline_selectors ob) = [11, 14, 12]"
  "estimator (demo_pipeline_selectors ob) = 12"
  "input_feature_names (demo_pipeline_selectors ob) = Map.empty"
  "objects (demo_pipeline_selectors ob) = demo_objects"
  by (simp_all add: demo_pipeline_selectors_def)

lemma demo_pipeline_scaler_twice_simps [simp]:
  "objective (demo_pipeline_scaler_twice ob) = Some ob"
  "component_list (demo_pipeline_scaler_twice ob) = [10, 10, 12]"
  "estimator (demo_pipeline_scaler_twice ob) = 12"
  "input_feature_names (demo_pipeline_scaler_twice ob) = Map.empty"
  "objects (demo_pipeline_scaler_twice ob) = demo_objects"
  by (simp_all add: demo_pipeline_scaler_twice_def)

lemma demo_fitted_cost_simps [simp]:
  "objective demo_fitted_cost = Some (demo_cost\<lparr>o_state := 1\<rparr>)"
  "component_list demo_fitted_cost = [10, 11, 12]"
  "estimator demo_fitted_cost = 12"
  "objects demo_fitted_cost = demo_objects_fitted"
  by (simp_all add: demo_fitted_cost_def)

lemma demo_fitted_f1_simps [simp]:
  "objective demo_fitted_f1 = Some demo_f1"
  "component_list demo_fitted_f1 = [10, 11, 12]"
  "estimator demo_fitted_f1 = 12"
  "objects demo_fitted_f1 = demo_objects_fitted"
  by (simp_all add: demo_fitted_f1_def)

lemma demo_fitted_one_class_simps [simp]:
  "objective demo_fitted_one_class = Some demo_f1"
  "component_list demo_fitted_one_class = [10, 11, 13]"
  "estimator demo_fitted_one_class = 13"
  "objects demo_fitted_one_class 10 = demo_scaler\<lparr>component_obj := refit demo_obj\<rparr>"
  "objects demo_fitted_one_class 11 = demo_selector"
  "objects demo_fitted_one_class 13 = demo_one_class\<lparr>component_obj := refit demo_obj\<rparr>"
  by (simp_all add: demo_fitted_one_class_def)

lemma demo_cost_simps [simp]:
  "objective_name demo_cost = ''Fraud Cost''"
  "needs_fitting demo_cost" "fit_needs_proba demo_cost" "\<not> score_needs_proba demo_cost"
  "uses_extra_columns demo_cost" "o_state demo_cost = 0"
  "o_fit demo_cost st yp yt X = Inr (st + 1)"
  "o_predict demo_cost st (Array1 xs) X = Inr (Array1 (map (\<lambda>v. if st < v then 1 else 0) xs))"
  "o_score demo_cost st yp yt X = Inr (array_total yp)"
  by (simp_all add: demo_cost_def)

lemma demo_f1_simps [simp]:
  "objective_name demo_f1 = ''F1''"
  "\<not> needs_fitting demo_f1" "\<not> score_needs_proba demo_f1"
  "\<not> uses_extra_columns demo_f1" "o_state demo_f1 = 0"
  "o_score demo_f1 st yp yt X = Inr (array_total yp + sum_list yt)"
  by (simp_all add: demo_f1_def)

lemma demo_auc_simps [simp]:
  "objective_name demo_auc = ''AUC''"
  "\<not> needs_fitting demo_auc" "score_needs_proba demo_auc"
  "\<not> uses_extra_columns demo_auc" "o_state demo_auc = 0"
  "o_score demo_auc st yp yt X = Inr (2 * array_total yp)"
  by (simp_all add: demo_auc_def demo_f1_def)

lemma demo_cost_doubled_simps [simp]:
  "objective_name demo_cost_doubled = ''Fraud Cost''"
  "\<not> score_needs_proba demo_cost_doubled"
  "uses_extra_columns demo_cost_doubled" "o_state demo_cost_doubled = 0"
  "o_score demo_cost_doubled st yp yt X = Inr (2 * array_total yp + 7)"
  by (simp_all add: demo_cost_doubled_def demo_cost_def)

lemma demo_y_sum [simp]: "sum_list demo_y = 1"
  by (simp add: demo_y_def)

lemma array_total_Array1 [simp]: "array_total (Array1 xs) = sum_list xs"
  by (simp add: array_total_def)

text \<open>The transform chain of the example pipelines on \<open>demo_X\<close>.\<close>

lemma demo_transform_chain:
  assumes "component_list p = [10, 11, e]"
      and "name (objects p 10) = ''Scaler''" and "name (objects p 11) = ''Selector''"
      and "transform (objects p 10) = transform demo_scaler"
      and "transform (objects p 11) = transform demo_selector"
  shows "PipelineBase__transform p demo_X
     = (Inr [(''a'', 2)], [Transform ''Scaler'', Transform ''Selector''])"
  using assms by (simp add: PipelineBase__transform_def demo_X_def call_def ret_def)

lemma demo_transform_chains [simp]:
  "PipelineBase__transform (demo_pipeline ob) demo_X
     = (Inr [(''a'', 2)], [Transform ''Scaler'', Transform ''Selector''])"
  "PipelineBase__transform demo_fitted_cost demo_X
     = (Inr [(''a'', 2)], [Transform ''Scaler'', Transform ''Selector''])"
  "PipelineBase__transform demo_fitted_f1 demo_X
     = (Inr [(''a'', 2)], [Transform ''Scaler'', Transform ''Selector''])"
  "PipelineBase__transform demo_fitted_one_class demo_X
     = (Inr [(''a'', 2)], [Transform ''Scaler'', Transform ''Selector''])"
  by (rule demo_transform_chain; simp)+

text \<open>Fitting the example pipelines on \<open>demo_X\<close> and \<open>demo_y\<close>.\<close>

lemma demo_thread:
  "thread demo_objects [10, 11] demo_X demo_y
     = Inr ([(''Scaler'', demo_X), (''Selector'', [(''a'', 2), (''b'', 3)])],
            demo_objects(10 := demo_scaler\<lparr>component_obj := refit demo_obj\<rparr>),
            [(''a'', 2)])"
  by (simp add: apply_component_def demo_X_def)

lemma demo_thread_selectors:
  "thread demo_objects [11, 14] demo_X demo_y
     = Inr ([(''Selector'', demo_X), (''Selector'', [(''a'', 1)])], demo_objects, [(''a'', 1)])"
  by (simp add: apply_component_def demo_X_def)

lemma demo_thread_scaler_twice:
  "thread demo_objects [10, 10] demo_X demo_y
     = Inr ([(''Scaler'', demo_X), (''Scaler'', [(''a'', 2), (''b'', 3)])],
            demo_objects(10 := demo_scaler\<lparr>component_obj := refit (refit demo_obj)\<rparr>),
            [(''a'', 3), (''b'', 4)])"
  by (simp add: apply_component_def demo_X_def)

lemma demo_frames:
  "map_raise (pd_DataFrame demo_pandas) Xs = Inr Xs"
  by (induction Xs) simp_all

lemma demo_X_columns [simp]:
  "map (\<lambda>(l, v). PyStr l) demo_X = [PyStr ''a'', PyStr ''b'']"
  by (simp add: demo_X_def)

lemma demo__fit:
  "PipelineBase__fit demo_pandas (demo_pipeline ob) demo_X demo_y
   = (Inr (demo_fitted_cost\<lparr>objective := Some ob\<rparr>),
      [Fit_transform ''Scaler'', Transform ''Selector'', Fit ''Classifier''])"
  by (simp add: PipelineBase__fit_def fit_loop_returns [OF demo_thread demo_frames]
        record_names_def fit_event_def call_def ret_def Let_def
        demo_fitted_cost_def demo_pipeline_def demo_objects_fitted_def
        del: fit_loop.simps)

lemma demo__fit_one_class:
  "PipelineBase__fit demo_pandas (demo_pipeline_one_class demo_f1) demo_X demo_y
   = (Inr demo_fitted_one_class,
      [Fit_transform ''Scaler'', Transform ''Selector'', Fit ''Classifier''])"
  by (simp add: PipelineBase__fit_def fit_loop_returns [OF demo_thread demo_frames]
        record_names_def fit_event_def call_def ret_def Let_def
        demo_fitted_one_class_def demo_pipeline_one_class_def demo_pipeline_def
        del: fit_loop.simps)

text \<open>
  An instance that stands twice in the list is fitted twice: after \<^verbatim>\<open>_fit\<close> the
  scaler at both places has been fitted two times, the classifier once.
\<close>

lemma fit_mutates_shared_instance:
  "map_sum id
     (\<lambda>p. map (\<lambda>r. map_option obj_state (component_obj (objects p r))) (component_list p))
     (fst (PipelineBase__fit demo_pandas (demo_pipeline_scaler_twice demo_f1) demo_X demo_y))
   = Inr [Some 2, Some 2, Some 1]"
  by (simp add: PipelineBase__fit_def fit_loop_returns [OF demo_thread_scaler_twice demo_frames]
        call_def ret_def Let_def refit_def demo_obj_def
        del: fit_loop.simps)

theorem fit_threads_records_and_fits_witness:
  "PipelineBase__fit demo_pandas (demo_pipeline demo_f1) demo_X demo_y
     = (Inr demo_fitted_f1, [Fit_transform ''Scaler'', Transform ''Selector'', Fit ''Classifier''])
   \<and> input_feature_names demo_fitted_f1 ''Scaler'' = Some [PyStr ''a'', PyStr ''b'']
   \<and> input_feature_names demo_fitted_f1 ''Selector'' = Some [PyStr ''a'', PyStr ''b'']
   \<and> input_feature_names demo_fitted_f1 ''Classifier'' = Some [PyStr ''a'']"
proof -
  let ?h = "demo_objects(10 := demo_scaler\<lparr>component_obj := refit demo_obj\<rparr>)"
  let ?seen = "[(''Scaler'', demo_X), (''Selector'', [(''a'', 2), (''b'', 3)])]"
  let ?frames = "[demo_X, [(''a'', 2), (''b'', 3)], [(''a'', 2)]]"
  have t: "thread (objects (demo_pipeline demo_f1)) (butlast (component_list (demo_pipeline demo_f1)))
             demo_X demo_y = Inr (?seen, ?h, [(''a'', 2)])"
    by (simp add: demo_thread del: thread.simps)
  have f: "map_raise (pd_DataFrame demo_pandas) (map snd ?seen @ [[(''a'', 2)]]) = Inr ?frames"
    by simp
  have e: "fit (?h (estimator (demo_pipeline demo_f1)))
             (component_obj (?h (estimator (demo_pipeline demo_f1)))) [(''a'', 2)] demo_y
           = Inr (refit demo_obj)"
    by simp
  have d: "distinct (map fst ?seen @ [name (?h (estimator (demo_pipeline demo_f1)))])"
    by simp
  note run = fit_threads_records_and_fits
               [of "demo_pipeline demo_f1" demo_X demo_y demo_pandas,
                THEN conjunct1, rule_format, OF conjI [OF t conjI [OF f e]]]
  from run [THEN conjunct1]
  have r: "PipelineBase__fit demo_pandas (demo_pipeline demo_f1) demo_X demo_y
     = (Inr demo_fitted_f1, [Fit_transform ''Scaler'', Transform ''Selector'', Fit ''Classifier''])"
    by (simp add: record_names_def fit_event_def demo_fitted_f1_def demo_fitted_cost_def
          demo_pipeline_def demo_objects_fitted_def)
  from run [THEN conjunct2, THEN conjunct2, THEN conjunct2, THEN conjunct2, rule_format, OF d]
  have n: "\<forall>i<3. record_names demo_pandas (input_feature_names (demo_pipeline demo_f1))
             (zip [''Scaler'', ''Selector'', ''Classifier''] ?frames)
             ([''Scaler'', ''Selector'', ''Classifier''] ! i)
           = Some (columns demo_pandas (?frames ! i))"
    by simp
  have i: "input_feature_names demo_fitted_f1
             = record_names demo_pandas (input_feature_names (demo_pipeline demo_f1))
                 (zip [''Scaler'', ''Selector'', ''Classifier''] ?frames)"
    by (simp add: record_names_def demo_fitted_f1_def demo_fitted_cost_def demo_pipeline_def)
  from n [rule_format, of 0] n [rule_format, of 1] n [rule_format, of 2]
  have "input_feature_names demo_fitted_f1 ''Scaler'' = Some [PyStr ''a'', PyStr ''b'']
   \<and> input_feature_names demo_fitted_f1 ''Selector'' = Some [PyStr ''a'', PyStr ''b'']
   \<and> input_feature_names demo_fitted_f1 ''Classifier'' = Some [PyStr ''a'']"
    unfolding i by simp
  with r show ?thesis by simp
qed

text \<open>
  C6 as stated fails when two components share a name. In the pipeline of two
  selectors and a classifier the first selector is given \<open>demo_X\<close>, with the
  columns \<open>a\<close> and \<open>b\<close>, the second the table with the column \<open>a\<close>;
  after \<^verbatim>\<open>_fit\<close> the record under their name holds what the second saw, and
  what the first saw is recorded nowhere.
\<close>

theorem fit_overwrites_equal_names:
  "thread demo_objects [11, 14] demo_X demo_y
     = Inr ([(''Selector'', demo_X), (''Selector'', [(''a'', 1)])], demo_objects, [(''a'', 1)])
   \<and> columns demo_pandas demo_X = [PyStr ''a'', PyStr ''b'']
   \<and> map_sum id input_feature_names
        (fst (PipelineBase__fit demo_pandas (demo_pipeline_selectors demo_f1) demo_X demo_y))
      = Inr [''Selector'' \<mapsto> [PyStr ''a''], ''Classifier'' \<mapsto> [PyStr ''a'']]"
  by (simp add: demo_thread_selectors PipelineBase__fit_def
        fit_loop_returns [OF demo_thread_selectors demo_frames]
        record_names_def call_def ret_def Let_def
        del: fit_loop.simps thread.simps)

section \<open>Predicting\<close>

lemma demo_predict_proba_fitted:
  assumes "component_list p = [10, 11, 12]" and "estimator p = 12"
      and "objects p = demo_objects_fitted"
  shows "PipelineBase_predict_proba demo_pandas p demo_X
     = (Inr (Array1 [2]), [Transform ''Scaler'', Transform ''Selector'', Predict_proba ''Classifier''])"
  using assms
  by (simp add: PipelineBase_predict_proba_def PipelineBase__transform_def demo_X_def
        shape_1_def column_1_def call_def lift_def ret_def)

lemma demo_fitted_cost_objective:
  "demo_fitted_cost\<lparr>objective := Some (demo_cost\<lparr>o_state := 1\<rparr>)\<rparr> = demo_fitted_cost"
  by (simp add: demo_fitted_cost_def)

lemma demo_fitted_updates [simp]:
  "component_list (demo_fitted_cost\<lparr>objective := ob\<rparr>) = [10, 11, 12]"
  "estimator (demo_fitted_cost\<lparr>objective := ob\<rparr>) = 12"
  "objects (demo_fitted_cost\<lparr>objective := ob\<rparr>) = demo_objects_fitted"
  by simp_all

lemma demo_fit_cost:
  "PipelineBase_fit demo_pandas (demo_pipeline demo_cost) demo_X demo_y 0
   = (Inr demo_fitted_cost,
      [Fit_transform ''Scaler'', Transform ''Selector'', Fit ''Classifier'',
       Transform ''Scaler'', Transform ''Selector'', Predict_proba ''Classifier'',
       Objective_fit ''Fraud Cost''])"
  by (simp add: PipelineBase_fit_def demo__fit demo_predict_proba_fitted call_def ret_def lift_def
        demo_fitted_cost_objective)

lemma demo_fit_f1:
  "PipelineBase_fit demo_pandas (demo_pipeline demo_f1) demo_X demo_y 0
   = (Inr demo_fitted_f1, [Fit_transform ''Scaler'', Transform ''Selector'', Fit ''Classifier''])"
  by (simp add: PipelineBase_fit_def demo__fit demo_fitted_f1_def)

lemma demo_fit_one_class:
  "PipelineBase_fit demo_pandas (demo_pipeline_one_class demo_f1) demo_X demo_y 0
   = (Inr demo_fitted_one_class,
      [Fit_transform ''Scaler'', Transform ''Selector'', Fit ''Classifier''])"
  by (simp add: PipelineBase_fit_def demo__fit_one_class)

lemma demo_predict_cost:
  "PipelineBase_predict demo_pandas demo_fitted_cost demo_X
     = (Inr (Array1 [1]),
        [Transform ''Scaler'', Transform ''Selector'',
         Transform ''Scaler'', Transform ''Selector'', Predict_proba ''Classifier'',
         Objective_predict ''Fraud Cost''])"
  by (simp add: PipelineBase_predict_def demo_predict_proba_fitted call_def)

lemma demo_predict_f1:
  "PipelineBase_predict demo_pandas demo_fitted_f1 demo_X
     = (Inr (Array1 [2]), [Transform ''Scaler'', Transform ''Selector'', Predict ''Classifier''])"
  by (simp add: PipelineBase_predict_def call_def)

text \<open>
  C10, at a failing input. The pipeline around the classifier fitted on one class
  has been fitted; on \<open>demo_X\<close> its transform chain returns, the estimator's
  probabilities have a single column, which is at most two, and
  \<^verbatim>\<open>predict_proba\<close> raises \<^verbatim>\<open>IndexError\<close>: it returns neither a column
  nor the matrix.
\<close>

theorem predict_proba_single_column_fails:
  "fst (PipelineBase_fit demo_pandas (demo_pipeline_one_class demo_f1) demo_X demo_y 0)
     = Inr demo_fitted_one_class
   \<and> fst (PipelineBase__transform demo_fitted_one_class demo_X) = Inr [(''a'', 2)]
   \<and> predict_proba (objects demo_fitted_one_class (estimator demo_fitted_one_class))
        (component_obj (objects demo_fitted_one_class (estimator demo_fitted_one_class)))
        [(''a'', 2)]
      = Inr (Array2 1 [[1]])
   \<and> fst (PipelineBase_predict_proba demo_pandas demo_fitted_one_class demo_X)
      = Inl (Exception IndexError ''index 1 is out of bounds for axis 1 with size 1'')"
  by (simp add: demo_fit_one_class PipelineBase_predict_proba_def shape_1_def column_1_def
        call_def lift_def ret_def)

lemma fit_keeps_objective:
  assumes "fst (PipelineBase__fit P self X y) = Inr fitted"
  shows "objective fitted = objective self"
  using assms
  by (auto simp: PipelineBase__fit_def fst_tbind Let_def split: sum.splits prod.splits)

text \<open>
  C2, as the code has it. For a pipeline that \<^verbatim>\<open>fit\<close> returned and whose
  objective does not need fitting, \<^verbatim>\<open>predict\<close> on any data is the wrapped
  estimator's \<^verbatim>\<open>predict\<close> on the features that come out of the transform chain
  for the data made a frame: the same outcome and the same calls into the library.
\<close>

theorem predict_is_estimator_on_transformed:
  assumes "fst (PipelineBase_fit P self X y objective_fit_size) = Inr fitted"
      and "objective self = Some ob"
      and "\<not> needs_fitting ob"
  shows "PipelineBase_predict P fitted X'
           = tbind (lift (as_DataFrame P X')) (estimator_on_transformed fitted)"
proof -
  from assms obtain X1 y1 where
    "fst (PipelineBase__fit P self X1 y1) = Inr fitted"
    by (auto simp: PipelineBase_fit_def fst_tbind split: sum.splits)
  then have "objective fitted = Some ob"
    using assms(2) by (simp add: fit_keeps_objective)
  with assms(3) show ?thesis
    by (simp add: PipelineBase_predict_def estimator_on_transformed_def [abs_def])
qed

theorem predict_is_estimator_on_transformed_witness:
  "PipelineBase_predict demo_pandas demo_fitted_f1 demo_X
     = estimator_on_transformed demo_fitted_f1 demo_X"
proof -
  have f: "fst (PipelineBase_fit demo_pandas (demo_pipeline demo_f1) demo_X demo_y 0)
             = Inr demo_fitted_f1"
    by (simp add: demo_fit_f1)
  have ob: "objective (demo_pipeline demo_f1) = Some demo_f1"
    by simp
  have n: "\<not> needs_fitting demo_f1"
    by simp
  from predict_is_estimator_on_transformed [OF f ob n, of demo_X]
  show ?thesis by simp
qed

text \<open>
  C2 as stated fails when the objective needs fitting: after \<^verbatim>\<open>fit\<close> on
  \<open>demo_X\<close>, \<^verbatim>\<open>predict\<close> on \<open>demo_X\<close> returns the label the cost objective
  makes of the probability, not what the estimator's \<^verbatim>\<open>predict\<close> returns on the
  transformed features.
\<close>

theorem predict_goes_through_objective:
  "fst (PipelineBase_fit demo_pandas (demo_pipeline demo_cost) demo_X demo_y 0) = Inr demo_fitted_cost
   \<and> fst (PipelineBase_predict demo_pandas demo_fitted_cost demo_X) = Inr (Array1 [1])
   \<and> fst (estimator_on_transformed demo_fitted_cost demo_X) = Inr (Array1 [2])"
  by (simp add: demo_fit_cost demo_predict_cost estimator_on_transformed_def call_def)

section \<open>Scoring\<close>

lemma demo_predict_proba_f1:
  "PipelineBase_predict_proba demo_pandas demo_fitted_f1 demo_X
     = (Inr (Array1 [2]), [Transform ''Scaler'', Transform ''Selector'', Predict_proba ''Classifier''])"
  by (simp add: demo_predict_proba_fitted)

lemma demo_score_f1:
  "PipelineBase_score demo_get_objective demo_pandas demo_fitted_f1 demo_X demo_y
     (Some [''auc'', ''cost''])
   = (Inr (3, [(''AUC'', 4), (''Fraud Cost'', 2)]),
      [Transform ''Scaler'', Transform ''Selector'', Predict ''Classifier'',
       Objective_score ''F1'',
       Transform ''Scaler'', Transform ''Selector'', Predict_proba ''Classifier'',
       Objective_score ''AUC'', Objective_score ''Fraud Cost''])"
  by (simp add: PipelineBase_score_def demo_predict_f1 demo_predict_proba_f1 OrderedDict_def
        call_def ret_def lift_def)

lemma demo_score_same_name:
  "PipelineBase_score demo_get_objective demo_pandas demo_fitted_f1 demo_X demo_y
     (Some [''cost'', ''cost doubled''])
   = (Inr (3, [(''Fraud Cost'', 11)]),
      [Transform ''Scaler'', Transform ''Selector'', Predict ''Classifier'',
       Objective_score ''F1'', Objective_score ''Fraud Cost'', Objective_score ''Fraud Cost''])"
  by (simp add: PipelineBase_score_def demo_predict_f1 OrderedDict_def
        call_def ret_def lift_def)

lemma demo_score_cost:
  "PipelineBase_score demo_get_objective demo_pandas demo_fitted_cost demo_X demo_y
     (Some [''auc''])
   = (Inr (1, [(''AUC'', 4)]),
      [Transform ''Scaler'', Transform ''Selector'',
       Transform ''Scaler'', Transform ''Selector'', Predict_proba ''Classifier'',
       Objective_predict ''Fraud Cost'', Objective_score ''Fraud Cost'',
       Transform ''Scaler'', Transform ''Selector'', Predict_proba ''Classifier'',
       Objective_score ''AUC''])"
  by (simp add: PipelineBase_score_def demo_predict_cost demo_predict_proba_fitted OrderedDict_def
        call_def ret_def lift_def)

lemma demo_score_primary:
  "PipelineBase_score demo_get_objective demo_pandas demo_fitted_f1 demo_X demo_y None
   = (Inr (3, []),
      [Transform ''Scaler'', Transform ''Selector'', Predict ''Classifier'',
       Objective_score ''F1''])"
  by (simp add: PipelineBase_score_def demo_predict_f1 call_def ret_def lift_def)

lemma label_computations_simps [simp]:
  "label_computations [] = 0"
  "label_computations (a @ b) = label_computations a + label_computations b"
  "label_computations (ev # a) = (if is_Predict ev then 1 else 0) + label_computations a"
  by (simp_all add: label_computations_def)

lemma probability_computations_simps [simp]:
  "probability_computations [] = 0"
  "probability_computations (a @ b) = probability_computations a + probability_computations b"
  "probability_computations (ev # a) = (if is_Predict_proba ev then 1 else 0) + probability_computations a"
  by (simp_all add: probability_computations_def)

lemma transform_loop_computes_nothing:
  "label_computations (snd (transform_loop h cs X)) = 0
   \<and> probability_computations (snd (transform_loop h cs X)) = 0"
  by (induction cs arbitrary: X) (auto simp: snd_tbind split: sum.splits)

lemma transform_computes_nothing [simp]:
  "label_computations (snd (PipelineBase__transform self X)) = 0"
  "probability_computations (snd (PipelineBase__transform self X)) = 0"
  by (simp_all add: PipelineBase__transform_def transform_loop_computes_nothing)

lemma predict_proba_computations:
  "label_computations (snd (PipelineBase_predict_proba P self X)) = 0
   \<and> probability_computations (snd (PipelineBase_predict_proba P self X)) \<le> 1"
  by (auto simp: PipelineBase_predict_proba_def Let_def snd_tbind split: sum.splits)

lemma predict_computations:
  "label_computations (snd (PipelineBase_predict P self X)) \<le> 1
   \<and> probability_computations (snd (PipelineBase_predict P self X))
       \<le> (if predict_uses_proba self then 1 else 0)"
proof (cases "as_DataFrame P X")
  case (Inl e)
  then show ?thesis by (simp add: PipelineBase_predict_def)
next
  case (Inr X')
  from predict_proba_computations [of P self X'] Inr
  show ?thesis
    by (auto simp: PipelineBase_predict_def predict_uses_proba_def Let_def snd_tbind
          split: sum.splits option.splits)
qed

text \<open>What the estimator computes in a call that returns.\<close>

lemma predict_proba_returns:
  assumes "fst (PipelineBase_predict_proba P self X) = Inr v"
  shows "label_computations (snd (PipelineBase_predict_proba P self X)) = 0
       \<and> probability_computations (snd (PipelineBase_predict_proba P self X)) = 1"
  using assms
  by (auto simp: PipelineBase_predict_proba_def Let_def fst_tbind snd_tbind split: sum.splits)

lemma predict_returns:
  assumes "fst (PipelineBase_predict P self X) = Inr v"
  shows "label_computations (snd (PipelineBase_predict P self X))
           = (if predict_uses_proba self then 0 else 1)
       \<and> probability_computations (snd (PipelineBase_predict P self X))
           = (if predict_uses_proba self then 1 else 0)"
proof -
  from assms obtain X' where X': "as_DataFrame P X = Inr X'"
    by (cases "as_DataFrame P X") (simp_all add: PipelineBase_predict_def)
  show ?thesis
  proof (cases "predict_uses_proba self")
    case True
    then obtain ob where ob: "objective self = Some ob" "needs_fitting ob" "fit_needs_proba ob"
      by (auto simp: predict_uses_proba_def split: option.splits)
    from assms X' ob obtain w where "fst (PipelineBase_predict_proba P self X') = Inr w"
      by (auto simp: PipelineBase_predict_def fst_tbind split: sum.splits)
    from predict_proba_returns [OF this] assms X' ob True show ?thesis
      by (auto simp: PipelineBase_predict_def fst_tbind snd_tbind split: sum.splits)
  next
    case False
    with assms X' show ?thesis
      by (auto simp: PipelineBase_predict_def predict_uses_proba_def fst_tbind snd_tbind
            split: sum.splits option.splits if_splits)
  qed
qed

text \<open>One round of the loop of score: the predictions it scores and the caches it leaves.\<close>

lemma score_loop_Cons:
  "score_loop P self X y (Some ob # rest) yp ypp =
     (if score_needs_proba ob then
        tbind (case ypp of None \<Rightarrow> PipelineBase_predict_proba P self X | Some cached \<Rightarrow> ret cached)
          (\<lambda>v. tbind (call (Objective_score (objective_name ob))
                        (o_score ob (o_state ob) v y (if uses_extra_columns ob then Some X else None)))
                 (\<lambda>s. tbind (score_loop P self X y rest yp (Some v)) (\<lambda>scores. ret (s # scores))))
      else
        tbind (case yp of None \<Rightarrow> PipelineBase_predict P self X | Some cached \<Rightarrow> ret cached)
          (\<lambda>v. tbind (call (Objective_score (objective_name ob))
                        (o_score ob (o_state ob) v y (if uses_extra_columns ob then Some X else None)))
                 (\<lambda>s. tbind (score_loop P self X y rest (Some v) ypp) (\<lambda>scores. ret (s # scores)))))"
  by (simp add: tbind_def ret_def split: sum.splits)

lemma label_tbind:
  "label_computations (snd (tbind m f)) =
     label_computations (snd m)
     + (case fst m of Inl e \<Rightarrow> 0 | Inr v \<Rightarrow> label_computations (snd (f v)))"
  by (simp add: snd_tbind split: sum.splits)

lemma probability_tbind:
  "probability_computations (snd (tbind m f)) =
     probability_computations (snd m)
     + (case fst m of Inl e \<Rightarrow> 0 | Inr v \<Rightarrow> probability_computations (snd (f v)))"
  by (simp add: snd_tbind split: sum.splits)

lemma label_bound:
  assumes "label_computations (snd m) \<le> a"
      and "\<And>v. fst m = Inr v \<Longrightarrow> label_computations (snd (f v)) \<le> b"
  shows "label_computations (snd (tbind m f)) \<le> a + b"
  using assms by (auto simp: label_tbind split: sum.splits intro: add_le_mono)

lemma probability_bound:
  assumes "probability_computations (snd m) \<le> a"
      and "\<And>v. fst m = Inr v \<Longrightarrow> probability_computations (snd (f v)) \<le> b"
  shows "probability_computations (snd (tbind m f)) \<le> a + b"
  using assms by (auto simp: probability_tbind split: sum.splits intro: add_le_mono)

lemma scoring_computes_nothing:
  "label_computations
     (snd (tbind (call (Objective_score n) r) (\<lambda>s. tbind m (\<lambda>scores. ret (s # scores)))))
     \<le> label_computations (snd m)"
  "probability_computations
     (snd (tbind (call (Objective_score n) r) (\<lambda>s. tbind m (\<lambda>scores. ret (s # scores)))))
     \<le> probability_computations (snd m)"
  by (simp_all add: label_tbind probability_tbind split: sum.splits)

lemma score_loop_labels:
  "label_computations (snd (score_loop P self X y obs yp ypp)) \<le> (if yp = None then 1 else 0)"
proof (induction obs arbitrary: yp ypp)
  case Nil
  show ?case by simp
next
  case (Cons o' obs)
  show ?case
  proof (cases o')
    case None
    then show ?thesis by simp
  next
    case (Some ob)
    let ?score = "\<lambda>v. call (Objective_score (objective_name ob))
                      (o_score ob (o_state ob) v y (if uses_extra_columns ob then Some X else None))"
    have rest: "label_computations
                  (snd (tbind (?score v)
                     (\<lambda>s. tbind (score_loop P self X y obs yp' ypp') (\<lambda>scores. ret (s # scores)))))
                \<le> (if yp' = None then 1 else 0)" for v yp' ypp'
      using scoring_computes_nothing(1) [of "objective_name ob" _ "score_loop P self X y obs yp' ypp'"]
        Cons.IH [of yp' ypp']
      by (rule order_trans)
    have keep: "label_computations
                  (snd (tbind (?score v)
                     (\<lambda>s. tbind (score_loop P self X y obs yp (Some v)) (\<lambda>scores. ret (s # scores)))))
                \<le> (if yp = None then 1 else 0)" for v
      by (rule rest)
    have fill: "label_computations
                  (snd (tbind (?score v)
                     (\<lambda>s. tbind (score_loop P self X y obs (Some v) ypp) (\<lambda>scores. ret (s # scores)))))
                \<le> 0" for v
      using rest [of v "Some v" ypp] by simp
    show ?thesis
    proof (cases "score_needs_proba ob")
      case True
      have m: "label_computations
                 (snd (case ypp of None \<Rightarrow> PipelineBase_predict_proba P self X
                       | Some cached \<Rightarrow> ret cached)) \<le> 0"
        using predict_proba_computations [of P self X] by (simp split: option.splits)
      from label_bound [where f = "\<lambda>v. tbind (?score v)
             (\<lambda>s. tbind (score_loop P self X y obs yp (Some v)) (\<lambda>scores. ret (s # scores)))",
             OF m keep]
      show ?thesis
        by (simp add: Some True score_loop_Cons del: score_loop.simps)
    next
      case False
      show ?thesis
      proof (cases yp)
        case None
        have m: "label_computations (snd (PipelineBase_predict P self X)) \<le> 1"
          using predict_computations [of P self X] by simp
        from label_bound [where f = "\<lambda>v. tbind (?score v)
               (\<lambda>s. tbind (score_loop P self X y obs (Some v) ypp) (\<lambda>scores. ret (s # scores)))",
               OF m fill]
        show ?thesis
          by (simp add: Some False None score_loop_Cons del: score_loop.simps)
      next
        case (Some c)
        from fill [of c]
        show ?thesis
          by (simp add: \<open>o' = Some ob\<close> False Some score_loop_Cons del: score_loop.simps)
      qed
    qed
  qed
qed

lemma score_loop_probabilities:
  "probability_computations (snd (score_loop P self X y obs yp ypp))
     \<le> (if ypp = None then 1 else 0) + (if yp = None \<and> predict_uses_proba self then 1 else 0)"
proof (induction obs arbitrary: yp ypp)
  case Nil
  show ?case by simp
next
  case (Cons o' obs)
  show ?case
  proof (cases o')
    case None
    then show ?thesis by simp
  next
    case (Some ob)
    let ?score = "\<lambda>v. call (Objective_score (objective_name ob))
                      (o_score ob (o_state ob) v y (if uses_extra_columns ob then Some X else None))"
    have rest: "probability_computations
                  (snd (tbind (?score v)
                     (\<lambda>s. tbind (score_loop P self X y obs yp' ypp') (\<lambda>scores. ret (s # scores)))))
                \<le> (if ypp' = None then 1 else 0)
                    + (if yp' = None \<and> predict_uses_proba self then 1 else 0)" for v yp' ypp'
      using scoring_computes_nothing(2) [of "objective_name ob" _ "score_loop P self X y obs yp' ypp'"]
        Cons.IH [of yp' ypp']
      by (rule order_trans)
    have proba_cached: "probability_computations
                  (snd (tbind (?score v)
                     (\<lambda>s. tbind (score_loop P self X y obs yp (Some v)) (\<lambda>scores. ret (s # scores)))))
                \<le> (if yp = None \<and> predict_uses_proba self then 1 else 0)" for v
      using rest [of v yp "Some v"] by simp
    have labels_cached: "probability_computations
                  (snd (tbind (?score v)
                     (\<lambda>s. tbind (score_loop P self X y obs (Some v) ypp) (\<lambda>scores. ret (s # scores)))))
                \<le> (if ypp = None then 1 else 0)" for v
      using rest [of v "Some v" ypp] by simp
    show ?thesis
    proof (cases "score_needs_proba ob")
      case True
      show ?thesis
      proof (cases ypp)
        case None
        have m: "probability_computations (snd (PipelineBase_predict_proba P self X)) \<le> 1"
          using predict_proba_computations [of P self X] by simp
        from probability_bound [where f = "\<lambda>v. tbind (?score v)
               (\<lambda>s. tbind (score_loop P self X y obs yp (Some v)) (\<lambda>scores. ret (s # scores)))",
               OF m proba_cached]
        show ?thesis
          by (simp add: Some True None score_loop_Cons del: score_loop.simps)
      next
        case (Some c)
        from proba_cached [of c]
        show ?thesis
          by (simp add: \<open>o' = Some ob\<close> True Some score_loop_Cons del: score_loop.simps)
      qed
    next
      case False
      show ?thesis
      proof (cases yp)
        case None
        have m: "probability_computations (snd (PipelineBase_predict P self X))
                   \<le> (if predict_uses_proba self then 1 else 0)"
          using predict_computations [of P self X] by simp
        from probability_bound [where f = "\<lambda>v. tbind (?score v)
               (\<lambda>s. tbind (score_loop P self X y obs (Some v) ypp) (\<lambda>scores. ret (s # scores)))",
               OF m labels_cached]
        show ?thesis
          by (simp add: Some False None score_loop_Cons del: score_loop.simps)
      next
        case (Some c)
        from labels_cached [of c]
        show ?thesis
          by (simp add: \<open>o' = Some ob\<close> False Some score_loop_Cons del: score_loop.simps)
      qed
    qed
  qed
qed

lemma snd_score:
  "snd (PipelineBase_score get_objective P self X y other_objectives) =
     (case as_DataFrame P X of
        Inl e \<Rightarrow> []
      | Inr X' \<Rightarrow>
          (case as_Series P y of
             Inl e \<Rightarrow> []
           | Inr y' \<Rightarrow>
               (case map_raise get_objective
                       (case other_objectives of None \<Rightarrow> [] | Some os \<Rightarrow> os) of
                  Inl e \<Rightarrow> []
                | Inr obs \<Rightarrow> snd (score_loop P self X' y' (objective self # obs) None None))))"
  by (simp add: PipelineBase_score_def Let_def snd_tbind split: sum.splits list.splits)

lemma score_bounds:
  "label_computations (snd (PipelineBase_score get_objective P self X y other_objectives)) \<le> 1
   \<and> probability_computations (snd (PipelineBase_score get_objective P self X y other_objectives))
       \<le> (if predict_uses_proba self then 2 else 1)"
proof -
  have bl: "label_computations (snd (score_loop P self X' y' obs None None)) \<le> 1"
    for X' y' obs
    using score_loop_labels [of P self X' y' obs None None] by simp
  have bp: "probability_computations (snd (score_loop P self X' y' obs None None))
              \<le> (if predict_uses_proba self then 2 else 1)" for X' y' obs
    using score_loop_probabilities [of P self X' y' obs None None]
    by (auto split: if_splits)
  show ?thesis
  proof (cases "as_DataFrame P X")
    case Inl
    then show ?thesis by (simp add: snd_score)
  next
    case X': (Inr X')
    show ?thesis
    proof (cases "as_Series P y")
      case Inl
      then show ?thesis by (simp add: snd_score X')
    next
      case y': (Inr y')
      show ?thesis
      proof (cases "map_raise get_objective
                      (case other_objectives of None \<Rightarrow> [] | Some os \<Rightarrow> os)")
        case Inl
        then show ?thesis by (simp add: snd_score X' y')
      next
        case (Inr obs)
        from bl [of X' y' "objective self # obs"] bp [of X' y' "objective self # obs"]
        show ?thesis by (simp add: snd_score X' y' Inr del: score_loop.simps)
      qed
    qed
  qed
qed

text \<open>A step of the loop that returns.\<close>

lemma score_step:
  assumes "fst (tbind m (\<lambda>v. tbind (call (Objective_score n) (r v))
                   (\<lambda>s. tbind (L v) (\<lambda>scores. ret (s # scores))))) = Inr scores"
  obtains v s rest where "fst m = Inr v" and "r v = Inr s" and "fst (L v) = Inr rest"
    and "scores = s # rest"
    and "snd (tbind m (\<lambda>v. tbind (call (Objective_score n) (r v))
                   (\<lambda>s. tbind (L v) (\<lambda>scores. ret (s # scores)))))
         = snd m @ Objective_score n # snd (L v)"
  using assms
  by (auto simp: fst_tbind snd_tbind split: sum.splits)

lemma wants_simps [simp]:
  "wants_labels [] = False"
  "wants_probabilities [] = False"
  "wants_labels (ob # obs) = (\<not> score_needs_proba ob \<or> wants_labels obs)"
  "wants_probabilities (ob # obs) = (score_needs_proba ob \<or> wants_probabilities obs)"
  by (auto simp: wants_labels_def wants_probabilities_def)

lemma score_loop_returns:
  assumes "fst (score_loop P self X y (map Some obs) yp ypp) = Inr scores"
      and "\<And>c. yp = Some c \<Longrightarrow> fst (PipelineBase_predict P self X) = Inr c"
      and "\<And>c. ypp = Some c \<Longrightarrow> fst (PipelineBase_predict_proba P self X) = Inr c"
  shows "map Inr scores = map (scored_on_predictions P self X y) obs
       \<and> label_computations (snd (score_loop P self X y (map Some obs) yp ypp))
           = (if yp = None \<and> wants_labels obs \<and> \<not> predict_uses_proba self then 1 else 0)
       \<and> probability_computations (snd (score_loop P self X y (map Some obs) yp ypp))
           = (if ypp = None \<and> wants_probabilities obs then 1 else 0)
             + (if yp = None \<and> wants_labels obs \<and> predict_uses_proba self then 1 else 0)"
  using assms
proof (induction obs arbitrary: yp ypp scores)
  case Nil
  then show ?case by simp
next
  case (Cons ob obs)
  let ?r = "\<lambda>v. o_score ob (o_state ob) v y (if uses_extra_columns ob then Some X else None)"
  show ?case
  proof (cases "score_needs_proba ob")
    case True
    let ?m = "case ypp of None \<Rightarrow> PipelineBase_predict_proba P self X | Some cached \<Rightarrow> ret cached"
    from Cons.prems(1) True
    have run: "fst (tbind ?m (\<lambda>v. tbind (call (Objective_score (objective_name ob)) (?r v))
                   (\<lambda>s. tbind (score_loop P self X y (map Some obs) yp (Some v))
                          (\<lambda>scores. ret (s # scores))))) = Inr scores"
      by (simp add: score_loop_Cons del: score_loop.simps)
    from run obtain v s rest where
      m: "fst ?m = Inr v" and s: "?r v = Inr s"
      and l: "fst (score_loop P self X y (map Some obs) yp (Some v)) = Inr rest"
      and sc: "scores = s # rest"
      and log: "snd (tbind ?m (\<lambda>v. tbind (call (Objective_score (objective_name ob)) (?r v))
                   (\<lambda>s. tbind (score_loop P self X y (map Some obs) yp (Some v))
                          (\<lambda>scores. ret (s # scores)))))
                = snd ?m @ Objective_score (objective_name ob)
                    # snd (score_loop P self X y (map Some obs) yp (Some v))"
      by (rule score_step)
    from m Cons.prems(3) have v: "fst (PipelineBase_predict_proba P self X) = Inr v"
      by (cases ypp) simp_all
    from Cons.IH [OF l Cons.prems(2)] v
    have ih: "map Inr rest = map (scored_on_predictions P self X y) obs"
      "label_computations (snd (score_loop P self X y (map Some obs) yp (Some v)))
         = (if yp = None \<and> wants_labels obs \<and> \<not> predict_uses_proba self then 1 else 0)"
      "probability_computations (snd (score_loop P self X y (map Some obs) yp (Some v)))
         = (if yp = None \<and> wants_labels obs \<and> predict_uses_proba self then 1 else 0)"
      by simp_all
    have whole: "snd (score_loop P self X y (Some ob # map Some obs) yp ypp)
                 = snd ?m @ Objective_score (objective_name ob)
                    # snd (score_loop P self X y (map Some obs) yp (Some v))"
      using log True by (simp add: score_loop_Cons del: score_loop.simps)
    have counts: "label_computations (snd ?m) = 0"
      "probability_computations (snd ?m) = (if ypp = None then 1 else 0)"
      using predict_proba_returns [OF v] by (cases ypp; simp)+
    have val: "scored_on_predictions P self X y ob = Inr s"
      using v s True by (simp add: scored_on_predictions_def)
    show ?thesis
      using ih val counts True sc by (simp add: whole del: score_loop.simps)
  next
    case False
    let ?m = "case yp of None \<Rightarrow> PipelineBase_predict P self X | Some cached \<Rightarrow> ret cached"
    from Cons.prems(1) False
    have run: "fst (tbind ?m (\<lambda>v. tbind (call (Objective_score (objective_name ob)) (?r v))
                   (\<lambda>s. tbind (score_loop P self X y (map Some obs) (Some v) ypp)
                          (\<lambda>scores. ret (s # scores))))) = Inr scores"
      by (simp add: score_loop_Cons del: score_loop.simps)
    from run obtain v s rest where
      m: "fst ?m = Inr v" and s: "?r v = Inr s"
      and l: "fst (score_loop P self X y (map Some obs) (Some v) ypp) = Inr rest"
      and sc: "scores = s # rest"
      and log: "snd (tbind ?m (\<lambda>v. tbind (call (Objective_score (objective_name ob)) (?r v))
                   (\<lambda>s. tbind (score_loop P self X y (map Some obs) (Some v) ypp)
                          (\<lambda>scores. ret (s # scores)))))
                = snd ?m @ Objective_score (objective_name ob)
                    # snd (score_loop P self X y (map Some obs) (Some v) ypp)"
      by (rule score_step)
    from m Cons.prems(2) have v: "fst (PipelineBase_predict P self X) = Inr v"
      by (cases yp) simp_all
    from Cons.IH [OF l _ Cons.prems(3)] v
    have ih: "map Inr rest = map (scored_on_predictions P self X y) obs"
      "label_computations (snd (score_loop P self X y (map Some obs) (Some v) ypp)) = 0"
      "probability_computations (snd (score_loop P self X y (map Some obs) (Some v) ypp))
         = (if ypp = None \<and> wants_probabilities obs then 1 else 0)"
      by simp_all
    have whole: "snd (score_loop P self X y (Some ob # map Some obs) yp ypp)
                 = snd ?m @ Objective_score (objective_name ob)
                    # snd (score_loop P self X y (map Some obs) (Some v) ypp)"
      using log False by (simp add: score_loop_Cons del: score_loop.simps)
    have counts:
      "label_computations (snd ?m) = (if yp = None \<and> \<not> predict_uses_proba self then 1 else 0)"
      "probability_computations (snd ?m) = (if yp = None \<and> predict_uses_proba self then 1 else 0)"
      using predict_returns [OF v] by (cases yp; simp)+
    have val: "scored_on_predictions P self X y ob = Inr s"
      using v s False by (simp add: scored_on_predictions_def)
    show ?thesis
      using ih val counts False sc by (simp add: whole del: score_loop.simps)
  qed
qed

lemma score_loop_Inr:
  "fst (score_loop P self X y obs yp ypp) = Inr scores \<Longrightarrow>
     length scores = length obs \<and> None \<notin> set obs"
proof (induction obs arbitrary: yp ypp scores)
  case Nil
  then show ?case by simp
next
  case (Cons o' obs)
  show ?case
  proof (cases o')
    case None
    with Cons.prems show ?thesis by simp
  next
    case (Some ob)
    from Cons.prems obtain s rest yp' ypp' where
      "fst (score_loop P self X y obs yp' ypp') = Inr rest" and "scores = s # rest"
      by (auto simp: Some score_loop_Cons fst_tbind simp del: score_loop.simps
            split: if_splits sum.splits)
    with Cons.IH [of yp' ypp' rest] Some show ?thesis by simp
  qed
qed

lemma map_raise_names:
  "map_raise (\<lambda>n. case n of None \<Rightarrow> Inl e | Some ob \<Rightarrow> Inr (g ob)) (map Some obs)
     = Inr (map g obs)"
  by (induction obs) simp_all

lemma no_None_map_Some:
  "None \<notin> set xs \<Longrightarrow> \<exists>ys. xs = map Some ys"
proof (induction xs)
  case Nil
  show ?case by simp
next
  case (Cons x xs)
  then obtain ys where "xs = map Some ys" by auto
  moreover from Cons.prems obtain v where "x = Some v" by (cases x) auto
  ultimately have "x # xs = map Some (v # ys)" by simp
  then show ?case by (rule exI [where x = "v # ys"])
qed

text \<open>What a call of score that returns went through.\<close>

lemma score_returns:
  assumes "fst (PipelineBase_score get_objective P self X y other_objectives) = Inr (s, d)"
  obtains X' y' ob0 obs scores where
    "as_DataFrame P X = Inr X'" and "as_Series P y = Inr y'"
    and "objective self = Some ob0"
    and "map_raise get_objective (case other_objectives of None \<Rightarrow> [] | Some os \<Rightarrow> os)
           = Inr (map Some obs)"
    and "fst (score_loop P self X' y' (Some ob0 # map Some obs) None None) = Inr (s # scores)"
    and "length scores = length obs"
    and "d = OrderedDict (zip (map objective_name obs) scores)"
    and "snd (PipelineBase_score get_objective P self X y other_objectives)
           = snd (score_loop P self X' y' (Some ob0 # map Some obs) None None)"
proof -
  let ?others = "case other_objectives of None \<Rightarrow> [] | Some os \<Rightarrow> os"
  from assms obtain X' where X': "as_DataFrame P X = Inr X'"
    by (cases "as_DataFrame P X") (simp_all add: PipelineBase_score_def)
  from assms X' obtain y' where y': "as_Series P y = Inr y'"
    by (cases "as_Series P y") (simp_all add: PipelineBase_score_def)
  from assms X' y' obtain resolved where r: "map_raise get_objective ?others = Inr resolved"
    by (cases "map_raise get_objective ?others")
       (simp_all add: PipelineBase_score_def Let_def)
  from assms X' y' r obtain all_scores where
    l: "fst (score_loop P self X' y' (objective self # resolved) None None) = Inr all_scores"
    by (cases "fst (score_loop P self X' y' (objective self # resolved) None None)")
       (simp_all add: PipelineBase_score_def Let_def fst_tbind)
  from score_loop_Inr [OF l] have len: "length all_scores = Suc (length resolved)"
    and some: "None \<notin> set resolved"
    by simp_all
  from score_loop_Inr [OF l] obtain ob0 where ob0: "objective self = Some ob0"
    by (cases "objective self") simp_all
  from no_None_map_Some [OF some] obtain obs where obs: "resolved = map Some obs" ..
  from len obtain s' scores where sc: "all_scores = s' # scores"
    by (cases all_scores) simp_all
  with len obs have len': "length scores = length obs" by simp
  let ?names = "map objective_name obs"
  from assms X' y' r l sc obs
  have res: "s = s' \<and> d = (if obs = [] then [] else OrderedDict (zip ?names scores))"
    by (auto simp: PipelineBase_score_def Let_def fst_tbind map_raise_names
          split: if_splits)
  from len' have "obs = [] \<Longrightarrow> OrderedDict (zip ?names scores) = []"
    by (simp add: OrderedDict_def)
  with res have d: "d = OrderedDict (zip ?names scores)" and s: "s = s'"
    by auto
  have log: "snd (PipelineBase_score get_objective P self X y other_objectives)
           = snd (score_loop P self X' y' (Some ob0 # map Some obs) None None)"
    by (simp add: snd_score X' y' r obs ob0 del: score_loop.simps)
  from l sc s obs ob0
  have l': "fst (score_loop P self X' y' (Some ob0 # map Some obs) None None) = Inr (s # scores)"
    by simp
  from X' y' ob0 r [unfolded obs] l' len' d log show thesis
    by (rule that)
qed

text \<open>
  C8, as the code has it. In one call of \<^verbatim>\<open>score\<close>, however many objectives
  are requested and whatever fails on the way, the estimator computes labels at most
  once; it computes probabilities at most once when \<^verbatim>\<open>predict\<close> does not itself
  go through \<^verbatim>\<open>predict_proba\<close>, and at most twice when it does (the pipeline's
  objective needs fitting on probabilities). When the call returns, every objective,
  the pipeline's own and each additional one, has been scored on the array of the kind
  it needs, the one that \<^verbatim>\<open>predict\<close>, or \<^verbatim>\<open>predict_proba\<close>, returns
  on the data; and the estimator has computed exactly this: one array of labels if
  some objective scores labels, one array of probabilities if some objective scores
  probabilities, the array of labels being computed from a second array of
  probabilities instead when \<^verbatim>\<open>predict\<close> goes through
  \<^verbatim>\<open>predict_proba\<close>.
\<close>

theorem score_computes_predictions_once:
  "label_computations (snd (PipelineBase_score get_objective P self X y other_objectives)) \<le> 1
   \<and> probability_computations (snd (PipelineBase_score get_objective P self X y other_objectives))
       \<le> (if predict_uses_proba self then 2 else 1)
   \<and> (\<forall>s d. fst (PipelineBase_score get_objective P self X y other_objectives) = Inr (s, d) \<longrightarrow>
         (\<exists>X' y' ob0 obs scores.
             as_DataFrame P X = Inr X' \<and> as_Series P y = Inr y'
           \<and> objective self = Some ob0
           \<and> map_raise get_objective (case other_objectives of None \<Rightarrow> [] | Some os \<Rightarrow> os)
               = Inr (map Some obs)
           \<and> map Inr (s # scores) = map (scored_on_predictions P self X' y') (ob0 # obs)
           \<and> d = OrderedDict (zip (map objective_name obs) scores)
           \<and> label_computations
               (snd (PipelineBase_score get_objective P self X y other_objectives))
               = (if wants_labels (ob0 # obs) \<and> \<not> predict_uses_proba self then 1 else 0)
           \<and> probability_computations
               (snd (PipelineBase_score get_objective P self X y other_objectives))
               = (if wants_probabilities (ob0 # obs) then 1 else 0)
                 + (if wants_labels (ob0 # obs) \<and> predict_uses_proba self then 1 else 0)))"
proof (intro conjI allI impI)
  show "label_computations (snd (PipelineBase_score get_objective P self X y other_objectives)) \<le> 1"
    using score_bounds [of get_objective P self X y other_objectives] by simp
  show "probability_computations (snd (PipelineBase_score get_objective P self X y other_objectives))
       \<le> (if predict_uses_proba self then 2 else 1)"
    using score_bounds [of get_objective P self X y other_objectives] by simp
next
  fix s d
  assume "fst (PipelineBase_score get_objective P self X y other_objectives) = Inr (s, d)"
  then obtain X' y' ob0 obs scores where
    X': "as_DataFrame P X = Inr X'" and y': "as_Series P y = Inr y'"
    and ob0: "objective self = Some ob0"
    and r: "map_raise get_objective (case other_objectives of None \<Rightarrow> [] | Some os \<Rightarrow> os)
           = Inr (map Some obs)"
    and l: "fst (score_loop P self X' y' (Some ob0 # map Some obs) None None) = Inr (s # scores)"
    and d: "d = OrderedDict (zip (map objective_name obs) scores)"
    and log: "snd (PipelineBase_score get_objective P self X y other_objectives)
           = snd (score_loop P self X' y' (Some ob0 # map Some obs) None None)"
    by (rule score_returns)
  from l have l': "fst (score_loop P self X' y' (map Some (ob0 # obs)) None None) = Inr (s # scores)"
    by simp
  from score_loop_returns [OF l']
  have v: "map Inr (s # scores) = map (scored_on_predictions P self X' y') (ob0 # obs)"
    and c: "label_computations (snd (score_loop P self X' y' (Some ob0 # map Some obs) None None))
           = (if wants_labels (ob0 # obs) \<and> \<not> predict_uses_proba self then 1 else 0)"
     "probability_computations (snd (score_loop P self X' y' (Some ob0 # map Some obs) None None))
           = (if wants_probabilities (ob0 # obs) then 1 else 0)
             + (if wants_labels (ob0 # obs) \<and> predict_uses_proba self then 1 else 0)"
    by (simp_all del: score_loop.simps wants_simps)
  from X' y' ob0 r v d c [folded log]
  show "\<exists>X' y' ob0 obs scores.
             as_DataFrame P X = Inr X' \<and> as_Series P y = Inr y'
           \<and> objective self = Some ob0
           \<and> map_raise get_objective (case other_objectives of None \<Rightarrow> [] | Some os \<Rightarrow> os)
               = Inr (map Some obs)
           \<and> map Inr (s # scores) = map (scored_on_predictions P self X' y') (ob0 # obs)
           \<and> d = OrderedDict (zip (map objective_name obs) scores)
           \<and> label_computations
               (snd (PipelineBase_score get_objective P self X y other_objectives))
               = (if wants_labels (ob0 # obs) \<and> \<not> predict_uses_proba self then 1 else 0)
           \<and> probability_computations
               (snd (PipelineBase_score get_objective P self X y other_objectives))
               = (if wants_probabilities (ob0 # obs) then 1 else 0)
                 + (if wants_labels (ob0 # obs) \<and> predict_uses_proba self then 1 else 0)"
    by blast
qed

theorem score_computes_predictions_once_witness:
  "fst (PipelineBase_score demo_get_objective demo_pandas demo_fitted_f1 demo_X demo_y
          (Some [''auc'', ''cost''])) = Inr (3, [(''AUC'', 4), (''Fraud Cost'', 2)])
   \<and> map (scored_on_predictions demo_pandas demo_fitted_f1 demo_X demo_y)
         [demo_f1, demo_auc, demo_cost] = [Inr 3, Inr 4, Inr 2]
   \<and> label_computations
        (snd (PipelineBase_score demo_get_objective demo_pandas demo_fitted_f1 demo_X demo_y
                (Some [''auc'', ''cost'']))) = 1
   \<and> probability_computations
        (snd (PipelineBase_score demo_get_objective demo_pandas demo_fitted_f1 demo_X demo_y
                (Some [''auc'', ''cost'']))) = 1"
proof -
  let ?S = "PipelineBase_score demo_get_objective demo_pandas demo_fitted_f1 demo_X demo_y
              (Some [''auc'', ''cost''])"
  have r: "fst ?S = Inr (3, [(''AUC'', 4), (''Fraud Cost'', 2)])"
    by (simp add: demo_score_f1)
  have u: "\<not> predict_uses_proba demo_fitted_f1"
    by (simp add: predict_uses_proba_def)
  from score_computes_predictions_once
         [of demo_get_objective demo_pandas demo_fitted_f1 demo_X demo_y
             "Some [''auc'', ''cost'']", THEN conjunct2, THEN conjunct2, rule_format, OF r]
  obtain X' y' ob0 obs scores where
    X': "as_DataFrame demo_pandas demo_X = Inr X'"
    and y': "as_Series demo_pandas demo_y = Inr y'"
    and ob0: "objective demo_fitted_f1 = Some ob0"
    and obs: "map_raise demo_get_objective
                (case Some [''auc'', ''cost''] of None \<Rightarrow> [] | Some os \<Rightarrow> os)
              = Inr (map Some obs)"
    and v: "map Inr (3 # scores)
              = map (scored_on_predictions demo_pandas demo_fitted_f1 X' y') (ob0 # obs)"
    and d: "[(''AUC'', 4), (''Fraud Cost'', 2)] = OrderedDict (zip (map objective_name obs) scores)"
    and c: "label_computations (snd ?S)
              = (if wants_labels (ob0 # obs) \<and> \<not> predict_uses_proba demo_fitted_f1 then 1 else 0)"
      "probability_computations (snd ?S)
              = (if wants_probabilities (ob0 # obs) then 1 else 0)
                + (if wants_labels (ob0 # obs) \<and> predict_uses_proba demo_fitted_f1 then 1 else 0)"
    by blast
  from X' have X: "X' = demo_X" by simp
  from y' have y: "y' = demo_y" by simp
  from ob0 have p: "ob0 = demo_f1" by simp
  from obs have o: "obs = [demo_auc, demo_cost]" by auto
  from v obtain a b where sc: "scores = [a, b]"
    by (cases scores; cases "tl scores"; cases "tl (tl scores)") (auto simp: p o)
  from d have "a = 4" "b = 2"
    by (simp_all add: sc o OrderedDict_def)
  with v have "map (scored_on_predictions demo_pandas demo_fitted_f1 demo_X demo_y)
                 [demo_f1, demo_auc, demo_cost] = [Inr 3, Inr 4, Inr 2]"
    by (simp add: p o sc X y)
  moreover from c have "label_computations (snd ?S) = 1" "probability_computations (snd ?S) = 1"
    by (simp_all add: p o u)
  ultimately show ?thesis
    using r by simp
qed

text \<open>
  C8 as stated fails: with the cost objective as the pipeline's objective and an
  objective that scores probabilities requested besides, one call of \<^verbatim>\<open>score\<close>
  has the estimator compute the probabilities twice, once inside \<^verbatim>\<open>predict\<close>
  and once for the cache of probabilities.
\<close>

theorem score_recomputes_probabilities:
  "fst (PipelineBase_score demo_get_objective demo_pandas demo_fitted_cost demo_X demo_y
          (Some [''auc''])) = Inr (1, [(''AUC'', 4)])
   \<and> probability_computations
        (snd (PipelineBase_score demo_get_objective demo_pandas demo_fitted_cost demo_X demo_y
                (Some [''auc'']))) = 2"
  by (simp add: demo_score_cost)

text \<open>The keys, the values and the order of an \<^verbatim>\<open>OrderedDict\<close>.\<close>

lemma remdups_snoc:
  "remdups (ys @ [k]) = remdups (filter (\<lambda>x. x \<noteq> k) ys) @ [k]"
  by (induction ys) auto

lemma first_occurrences_Cons:
  "rev (remdups (rev (k # xs))) = k # rev (remdups (rev (filter (\<lambda>x. x \<noteq> k) xs)))"
  by (simp add: remdups_snoc rev_filter)

lemma foldl_update_keys:
  "map fst (foldl (\<lambda>d (k, v). AList.update k v d) d kvs)
     = map fst d @ rev (remdups (rev (filter (\<lambda>k. k \<notin> set (map fst d)) (map fst kvs))))"
proof (induction kvs arbitrary: d)
  case Nil
  show ?case by simp
next
  case (Cons kv kvs)
  obtain k v where kv: "kv = (k, v)" by (cases kv)
  show ?case
  proof (cases "k \<in> fst ` set d")
    case True
    then have "map fst (AList.update k v d) = map fst d"
      by (simp add: update_keys)
    with True show ?thesis
      by (simp add: kv Cons.IH)
  next
    case False
    then have keys: "map fst (AList.update k v d) = map fst d @ [k]"
      by (simp add: update_keys)
    have "map fst (foldl (\<lambda>d (k, v). AList.update k v d) d (kv # kvs))
            = (map fst d @ [k])
              @ rev (remdups (rev (filter (\<lambda>x. x \<notin> set (map fst d @ [k])) (map fst kvs))))"
      by (simp add: kv Cons.IH keys)
    also have "filter (\<lambda>x. x \<notin> set (map fst d @ [k])) (map fst kvs)
                 = filter (\<lambda>x. x \<noteq> k) (filter (\<lambda>x. x \<notin> set (map fst d)) (map fst kvs))"
      by (auto intro: filter_cong)
    also have "(map fst d @ [k]) @ rev (remdups (rev (filter (\<lambda>x. x \<noteq> k)
                  (filter (\<lambda>x. x \<notin> set (map fst d)) (map fst kvs)))))
               = map fst d @ rev (remdups (rev (k # filter (\<lambda>x. x \<notin> set (map fst d)) (map fst kvs))))"
      by (simp only: first_occurrences_Cons append_assoc append_Cons append_Nil)
    also have "k # filter (\<lambda>x. x \<notin> set (map fst d)) (map fst kvs)
                 = filter (\<lambda>x. x \<notin> set (map fst d)) (map fst (kv # kvs))"
      using False by (simp add: kv)
    finally show ?thesis .
  qed
qed

lemma OrderedDict_keys:
  "map fst (OrderedDict kvs) = rev (remdups (rev (map fst kvs)))"
  by (simp add: OrderedDict_def foldl_update_keys)

lemma foldl_update_map_of:
  "map_of (foldl (\<lambda>d (k, v). AList.update k v d) d kvs) = map_of d ++ map_of (rev kvs)"
  by (induction kvs arbitrary: d) (auto simp: update_conv' map_add_upd_left fun_eq_iff map_add_def split: option.splits)

lemma OrderedDict_map_of:
  "map_of (OrderedDict kvs) = map_of (rev kvs)"
  by (simp add: OrderedDict_def foldl_update_map_of)

lemma foldl_update_distinct:
  "distinct (map fst (d @ kvs)) \<Longrightarrow> foldl (\<lambda>d (k, v). AList.update k v d) d kvs = d @ kvs"
proof (induction kvs arbitrary: d)
  case Nil
  show ?case by simp
next
  case (Cons kv kvs)
  obtain k v where kv: "kv = (k, v)" by (cases kv)
  from Cons.prems have "k \<notin> fst ` set d" by (auto simp: kv)
  then have u: "AList.update k v d = d @ [(k, v)]"
    by (induction d) auto
  from Cons.prems have "distinct (map fst ((d @ [(k, v)]) @ kvs))" by (simp add: kv)
  from Cons.IH [OF this] show ?case by (simp add: kv u)
qed

lemma OrderedDict_distinct:
  "distinct (map fst kvs) \<Longrightarrow> OrderedDict kvs = kvs"
  using foldl_update_distinct [of "[]" kvs] by (simp add: OrderedDict_def)

lemma OrderedDict_distinct_keys:
  "distinct (map fst (OrderedDict kvs))"
  by (simp add: OrderedDict_keys)

text \<open>
  C3, as the code has it. When \<^verbatim>\<open>score\<close> returns, it returns one primary score,
  the first of the loop's scores, and a mapping made of the additional objectives'
  names and scores: its keys are distinct, they are the names in the order of their
  first request, and each holds the score of the last objective requested under that
  name. When the names are pairwise distinct this is one entry per additional
  objective, in the order requested; with no additional objective the mapping is empty.
\<close>

theorem score_result_shape:
  assumes "fst (PipelineBase_score get_objective P self X y other_objectives) = Inr (s, d)"
  shows "\<exists>X' y' obs scores.
           as_DataFrame P X = Inr X' \<and> as_Series P y = Inr y'
         \<and> map_raise get_objective (case other_objectives of None \<Rightarrow> [] | Some os \<Rightarrow> os)
             = Inr (map Some obs)
         \<and> fst (score_loop P self X' y' (objective self # map Some obs) None None)
             = Inr (s # scores)
         \<and> length scores = length obs
         \<and> distinct (map fst d)
         \<and> map fst d = rev (remdups (rev (map objective_name obs)))
         \<and> map_of d = map_of (rev (zip (map objective_name obs) scores))
         \<and> (distinct (map objective_name obs) \<longrightarrow> d = zip (map objective_name obs) scores)
         \<and> (obs = [] \<longrightarrow> d = [])"
proof -
  from assms obtain X' y' ob0 obs scores where
    X': "as_DataFrame P X = Inr X'" and y': "as_Series P y = Inr y'"
    and ob0: "objective self = Some ob0"
    and r: "map_raise get_objective (case other_objectives of None \<Rightarrow> [] | Some os \<Rightarrow> os)
           = Inr (map Some obs)"
    and l: "fst (score_loop P self X' y' (Some ob0 # map Some obs) None None) = Inr (s # scores)"
    and len': "length scores = length obs"
    and d: "d = OrderedDict (zip (map objective_name obs) scores)"
    by (rule score_returns)
  let ?names = "map objective_name obs"
  from l ob0
  have l': "fst (score_loop P self X' y' (objective self # map Some obs) None None)
              = Inr (s # scores)"
    by simp
  from len' have keys: "map fst (zip ?names scores) = ?names"
    by simp
  have "distinct (map fst d)"
    by (simp add: d OrderedDict_distinct_keys)
  moreover have "map fst d = rev (remdups (rev ?names))"
    by (simp add: d OrderedDict_keys keys)
  moreover have "map_of d = map_of (rev (zip ?names scores))"
    by (simp add: d OrderedDict_map_of)
  moreover have "distinct ?names \<longrightarrow> d = zip ?names scores"
    using OrderedDict_distinct [of "zip ?names scores"] by (simp add: d keys)
  moreover have "obs = [] \<longrightarrow> d = []"
    by (simp add: d OrderedDict_def)
  ultimately show ?thesis
    using X' y' r l' len' by blast
qed

theorem score_result_shape_witness:
  "fst (PipelineBase_score demo_get_objective demo_pandas demo_fitted_f1 demo_X demo_y
          (Some [''auc'', ''cost''])) = Inr (3, [(''AUC'', 4), (''Fraud Cost'', 2)])
   \<and> distinct (map fst [(''AUC'', 4::int), (''Fraud Cost'', 2)])
   \<and> fst (PipelineBase_score demo_get_objective demo_pandas demo_fitted_f1 demo_X demo_y None)
       = Inr (3, [])"
proof -
  have r: "fst (PipelineBase_score demo_get_objective demo_pandas demo_fitted_f1 demo_X demo_y
          (Some [''auc'', ''cost''])) = Inr (3, [(''AUC'', 4), (''Fraud Cost'', 2)])"
    by (simp add: demo_score_f1)
  have n: "fst (PipelineBase_score demo_get_objective demo_pandas demo_fitted_f1 demo_X demo_y
          None) = Inr (3, [])"
    by (simp add: demo_score_primary)
  from score_result_shape [OF r]
  have "distinct (map fst [(''AUC'', 4::int), (''Fraud Cost'', 2)])"
    by blast
  moreover from score_result_shape [OF n]
  have "map fst ([] :: (string \<times> int) list) = []"
    by simp
  ultimately show ?thesis
    using r n by simp
qed

text \<open>
  C3 as stated fails when two additional objectives share a name: two cost
  objectives are requested, with scores 2 and 11, and the mapping has the single entry
  of the second.
\<close>

theorem score_merges_equal_names:
  "map_raise demo_get_objective [''cost'', ''cost doubled'']
     = Inr [Some demo_cost, Some demo_cost_doubled]
   \<and> fst (PipelineBase_score demo_get_objective demo_pandas demo_fitted_f1 demo_X demo_y
            (Some [''cost'', ''cost doubled''])) = Inr (3, [(''Fraud Cost'', 11)])"
  by (simp add: demo_score_same_name)

end
